theory Spec2Isabelle
  imports Complex_Main "HOL-Library.AList"
begin

section \<open>Python values used by both modules\<close>

text \<open>
  Exceptions are values. The constructors carry the names of the Python exception
  classes that the two source files raise; \<open>TransferTimeout\<close> and \<open>ShapeMismatch\<close> are the
  failures of the secret-sharing primitives, which live outside the two files, and
  \<open>ExternalError\<close> is any exception of a collaborator.
\<close>

datatype error =
    ValueError
  | NotImplementedError
  | UnboundLocalError
  | KeyError
  | IndexError
  | TypeError
  | FileExistsError
  | FileNotFoundError
  | IsADirectoryError
  | NotADirectoryError
  | UnicodeDecodeError
  | AttributeError
  | DecodeError
  | TransferTimeout
  | ShapeMismatch
  | ExternalError string

text \<open>
  A method of an object with mutable attributes is a function from the object's state
  to an outcome and the state it leaves behind. An exception keeps the state reached
  when it was raised, as in Python.
\<close>

definition bind :: "('s \<Rightarrow> (error + 'a) \<times> 's) \<Rightarrow> ('a \<Rightarrow> 's \<Rightarrow> (error + 'b) \<times> 's) \<Rightarrow> 's \<Rightarrow> (error + 'b) \<times> 's" where
  "bind f g s = (case f s of (Inl e, s') \<Rightarrow> (Inl e, s') | (Inr a, s') \<Rightarrow> g a s')"

text \<open>Decimal rendering of an integer, as an f-string does it.\<close>

fun digits :: "nat \<Rightarrow> string" where
  "digits n = (if n < 10 then [''0123456789'' ! n]
               else digits (n div 10) @ [''0123456789'' ! (n mod 10)])"

declare digits.simps [simp del]

definition str :: "int \<Rightarrow> string" where
  "str i = (if i < 0 then CHR ''-'' # digits (nat (- i)) else digits (nat i))"

section \<open>hetero\_lr\_base.py: the training coordinator\<close>

subsection \<open>Data\<close>

text \<open>The values of \<open>consts.GUEST\<close>, \<open>consts.HOST\<close> and \<open>consts.ARBITER\<close>.\<close>

datatype role = GUEST | HOST | ARBITER

text \<open>An element of a suffix tuple: \<open>(n_iter_, batch_idx)\<close>, \<open>(n_iter_,)\<close>, \<open>("z",) + suffix\<close>.\<close>

datatype sfx = SInt int | SStr string

text \<open>
  \<open>fixedpoint_numpy.FixedPointTensor\<close> over a weight vector: the local additive share (a
  one-dimensional array of field elements, so that \<open>shape[0]\<close> is its length) and the
  modulus. \<open>fixedpoint_table.FixedPointTensor\<close>: a table from record ids to values.
  \<open>PaillierFixedPointTensor\<close>: a table of ciphertexts. \<open>LinearModelWeights\<close>: the
  constructor's two arguments.
\<close>

record fp_share =
  share_val :: "int list"
  q_field :: int

datatype table_tensor = FixedPointTensor (table_val: "(nat \<times> real) list")


record linear_model_weights =
  l :: "real list"
  lmw_fit_intercept :: bool

text \<open>
  What a party does that another party, or a collaborator, can observe, in the order in
  which the coordinator does it. The trace is instrumentation: no source function reads it.
\<close>

datatype event =
    FromSource string
  | CalPrediction "sfx list"
  | PlainError "(nat \<times> real) list"
  | ComputeGradient "sfx list" table_tensor
  | ReconstructUnilateral string
  | BroadcastReconstructShare string "int list"
  | CheckConverge "sfx list" bool
  | Remote "sfx list" "(nat \<times> int) list"
  | GetParties "sfx list"

text \<open>
  The attributes of \<open>self\<close> that the modelled methods read or write:
  \<open>model_param.review_strategy\<close>, \<open>model_param.init_param.fit_intercept\<close>,
  \<open>model_param.encrypt_param.key_length\<close>, the cipher (its key length; the key itself
  is random), the loop
  counter \<open>n_iter_\<close> (here \<open>n_iter\<close>: a name cannot end in an underscore) and its cap,
  and the weights.
\<close>

record party =
  role :: role
  review_strategy :: string
  fit_intercept :: bool
  n_iter :: int
  max_iter :: int
  key_length :: nat
  cipher :: "nat option"
  is_converged :: bool
  labels :: "(nat \<times> real) list option"
  model_weights :: "linear_model_weights option"
  hosted_model_weights :: "linear_model_weights option"
  trace :: "event list"

text \<open>
  The collaborators of the coordinator that are not in the file: the channel (what the
  other party has sent under a tensor name, or under a suffix of the transfer variable
  \<open>encrypted_share_matrix\<close>), the fixed-point encoder (its modulus \<open>n\<close> and its decoder),
  encryption by a Paillier cipher (given the cipher that the party holds), and the methods
  that the base class leaves to its subclasses or inherits (\<open>cal_prediction\<close>,
  \<open>compute_gradient\<close>, \<open>check_converge\<close>, and \<open>_init_model\<close> of the superclass) with the
  arguments of their call sites. \<open>LogisticRegressionParam\<close> is kept to the parameters that the
  modelled methods read.
\<close>

record logistic_regression_param =
  param_review_strategy :: string
  param_fit_intercept :: bool
  param_max_iter :: int
  param_key_length :: nat

record env =
  super_init_model :: "logistic_regression_param \<Rightarrow> party \<Rightarrow> (error + unit) \<times> party"
  inbox :: "string \<Rightarrow> int list option"
  decode :: "int \<Rightarrow> real"
  from_source :: "string \<Rightarrow> real list option \<Rightarrow> error + fp_share"
  from_value :: "(nat \<times> real) list \<Rightarrow> table_tensor"
  cal_prediction :: "role \<Rightarrow> fp_share \<Rightarrow> fp_share \<Rightarrow> table_tensor \<Rightarrow> sfx list \<Rightarrow> error + table_tensor"
  compute_gradient :: "role \<Rightarrow> fp_share \<Rightarrow> fp_share \<Rightarrow> table_tensor \<Rightarrow> table_tensor \<Rightarrow> sfx list \<Rightarrow> error + fp_share \<times> fp_share"
  check_converge :: "real list \<times> linear_model_weights option \<Rightarrow> real list \<Rightarrow> sfx list \<Rightarrow> error + bool"
  distribute_encrypt :: "nat \<Rightarrow> (nat \<times> real) list \<Rightarrow> (nat \<times> int) list"
  get_parties :: "sfx list \<Rightarrow> (nat \<times> int) list list"
  encoder_n :: int

subsection \<open>The disclosure primitives\<close>

definition add_shares :: "int \<Rightarrow> int list \<Rightarrow> int list \<Rightarrow> int list" where
  "add_shares q xs ys = map2 (\<lambda>a b. (a + b) mod q) xs ys"

text \<open>
  Modelled from the spec: \<open>reconstruct_unilateral\<close> of the secret-shared tensor is not in
  the two files. The other party sends its share under the tag; the caller sums the
  shares in the field and decodes, and only the caller learns the plaintext. A share that
  never arrives is a timeout.
\<close>

definition reconstruct_unilateral :: "env \<Rightarrow> fp_share \<Rightarrow> string \<Rightarrow> party \<Rightarrow> (error + real list) \<times> party" where
  "reconstruct_unilateral ev t tensor_name s =
     (let s' = s\<lparr>trace := trace s @ [ReconstructUnilateral tensor_name]\<rparr> in
      case inbox ev tensor_name of
        None \<Rightarrow> (Inl TransferTimeout, s')
      | Some other \<Rightarrow>
          if length other \<noteq> length (share_val t) then (Inl ShapeMismatch, s')
          else (Inr (map (decode ev) (add_shares (q_field t) (share_val t) other)), s'))"

text \<open>
  Modelled from the spec: \<open>broadcast_reconstruct_share\<close> is not in the two files. The
  caller sends its own share to the other party under the tag and learns nothing.
\<close>

definition broadcast_reconstruct_share :: "fp_share \<Rightarrow> string \<Rightarrow> party \<Rightarrow> (error + unit) \<times> party" where
  "broadcast_reconstruct_share t tensor_name s =
     (Inr (), s\<lparr>trace := trace s @ [BroadcastReconstructShare tensor_name (share_val t)]\<rparr>)"

subsection \<open>review\_models\<close>

definition tensor_name :: "string \<Rightarrow> int \<Rightarrow> string" where
  "tensor_name w n = w @ ''_'' @ str n"

text \<open>The two closing statements of \<open>review_models\<close>: store the weights, return them.\<close>

definition set_model_weights :: "real list \<Rightarrow> party \<Rightarrow> (error + real list) \<times> party" where
  "set_model_weights new_w s =
     (Inr new_w, s\<lparr>model_weights := Some \<lparr>l = new_w, lmw_fit_intercept = fit_intercept s\<rparr>\<rparr>)"

definition review_models :: "env \<Rightarrow> fp_share \<Rightarrow> fp_share \<Rightarrow> party \<Rightarrow> (error + real list) \<times> party" where
  "review_models ev w_self w_remote s =
     (if review_strategy s = ''respectively'' then
        (if role s = GUEST then
           bind (reconstruct_unilateral ev w_self (tensor_name ''wb'' (n_iter s))) (\<lambda>new_w.
           bind (broadcast_reconstruct_share w_remote (tensor_name ''wa'' (n_iter s))) (\<lambda>_.
           set_model_weights new_w)) s
         else
           bind (broadcast_reconstruct_share w_remote (tensor_name ''wb'' (n_iter s))) (\<lambda>_.
           bind (reconstruct_unilateral ev w_self (tensor_name ''wa'' (n_iter s))) (\<lambda>new_w.
           set_model_weights new_w)) s)
      else if review_strategy s = ''all_review_in_guest'' then
        (if role s = GUEST then
           bind (reconstruct_unilateral ev w_self (tensor_name ''wb'' (n_iter s))) (\<lambda>new_w.
           bind (reconstruct_unilateral ev w_remote (tensor_name ''wa'' (n_iter s))) (\<lambda>hosted_weights.
           bind (\<lambda>s1. (Inr (), s1\<lparr>hosted_model_weights :=
                   Some \<lparr>l = hosted_weights, lmw_fit_intercept = False\<rparr>\<rparr>)) (\<lambda>_.
           set_model_weights new_w))) s
         else
           (if length (share_val w_remote) > 2 then (Inl ValueError, s)
            else
              bind (broadcast_reconstruct_share w_remote (tensor_name ''wb'' (n_iter s))) (\<lambda>_.
              bind (broadcast_reconstruct_share w_self (tensor_name ''wa'' (n_iter s))) (\<lambda>_.
              set_model_weights (replicate (length (share_val w_self)) 0))) s))
      else (Inl NotImplementedError, s))"

subsection \<open>\_init\_model and share\_init\_model\<close>

text \<open>
  \<open>_init_model\<close>: the superclass's initialisation, then a Paillier key of the configured
  length (the transfer variable it also creates has no state of its own here).
\<close>

definition init_model :: "env \<Rightarrow> logistic_regression_param \<Rightarrow> party \<Rightarrow> (error + unit) \<times> party" where
  "init_model ev params s =
     bind (super_init_model ev params) (\<lambda>_ s1. (Inr (), s1\<lparr>cipher := Some (key_length s1)\<rparr>)) s"

definition from_source_call :: "env \<Rightarrow> string \<Rightarrow> real list option \<Rightarrow> party \<Rightarrow> (error + fp_share) \<times> party" where
  "from_source_call ev name src s =
     (case from_source ev name src of
        Inl e \<Rightarrow> (Inl e, s\<lparr>trace := trace s @ [FromSource name]\<rparr>)
      | Inr t \<Rightarrow> (Inr t, s\<lparr>trace := trace s @ [FromSource name]\<rparr>))"

text \<open>
  \<open>share_init_model\<close>: \<open>source = [w, self.other_party]\<close>; the second source is the other
  party, that is, no local plaintext.
\<close>

definition share_init_model :: "env \<Rightarrow> real list \<Rightarrow> int \<Rightarrow> party \<Rightarrow> (error + fp_share \<times> fp_share) \<times> party" where
  "share_init_model ev w n s =
     (if role s = GUEST then
        bind (from_source_call ev (tensor_name ''wb'' n) (Some w)) (\<lambda>wb.
        bind (from_source_call ev (tensor_name ''wa'' n) None) (\<lambda>wa s1.
        (Inr (wb, wa), s1))) s
      else
        bind (from_source_call ev (tensor_name ''wa'' n) (Some w)) (\<lambda>wa.
        bind (from_source_call ev (tensor_name ''wb'' n) None) (\<lambda>wb s1.
        (Inr (wa, wb), s1))) s)"

subsection \<open>fit\_binary\<close>

text \<open>
  \<open>a.join(b, f)\<close> of the computing table: the keys of both, ordered as in \<open>a\<close>, with \<open>f\<close>
  of the two values.
\<close>

definition join :: "(nat \<times> 'a) list \<Rightarrow> (nat \<times> 'b) list \<Rightarrow> ('a \<Rightarrow> 'b \<Rightarrow> 'c) \<Rightarrow> (nat \<times> 'c) list" where
  "join a b f = List.map_filter (\<lambda>(k, x). map_option (\<lambda>y. (k, f x y)) (map_of b k)) a"

definition cal_prediction_call :: "env \<Rightarrow> fp_share \<Rightarrow> fp_share \<Rightarrow> table_tensor \<Rightarrow> sfx list \<Rightarrow> party \<Rightarrow> (error + table_tensor) \<times> party" where
  "cal_prediction_call ev w_self w_remote features suffix s =
     (cal_prediction ev (role s) w_self w_remote features suffix,
      s\<lparr>trace := trace s @ [CalPrediction suffix]\<rparr>)"

definition compute_gradient_call :: "env \<Rightarrow> fp_share \<Rightarrow> fp_share \<Rightarrow> table_tensor \<Rightarrow> table_tensor \<Rightarrow> sfx list \<Rightarrow> party \<Rightarrow> (error + fp_share \<times> fp_share) \<times> party" where
  "compute_gradient_call ev wa wb err features suffix s =
     (compute_gradient ev (role s) wa wb err features suffix,
      s\<lparr>trace := trace s @ [ComputeGradient suffix err]\<rparr>)"

text \<open>
  The body of the \<open>for\<close> loop (one batch). It returns the new \<open>w_self\<close>, \<open>w_remote\<close> and
  \<open>new_w\<close>. For the Guest the labels were set by \<open>fit_binary\<close>; a join with \<open>None\<close> raises.
\<close>

definition batch_step :: "env \<Rightarrow> nat \<Rightarrow> table_tensor \<Rightarrow> fp_share \<Rightarrow> fp_share \<Rightarrow> party \<Rightarrow> (error + fp_share \<times> fp_share \<times> real list) \<times> party" where
  "batch_step ev batch_idx batch_data w_self w_remote s =
     (let current_suffix = [SInt (n_iter s), SInt (int batch_idx)] in
      bind (cal_prediction_call ev w_self w_remote batch_data current_suffix) (\<lambda>y.
      bind (\<lambda>s1.
        if role s1 = GUEST then
          (case labels s1 of
             None \<Rightarrow> (Inl TypeError, s1)
           | Some lab \<Rightarrow>
               (let err = join (table_val y) lab (\<lambda>a b. a - b) in
                bind (\<lambda>s2. (Inr (from_value ev err), s2\<lparr>trace := trace s2 @ [PlainError err]\<rparr>)) (\<lambda>err'.
                bind (compute_gradient_call ev w_remote w_self err' batch_data current_suffix) (\<lambda>(w_remote', w_self') s3.
                (Inr (w_self', w_remote'), s3))) s1))
        else
          compute_gradient_call ev w_self w_remote y batch_data current_suffix s1) (\<lambda>(w_self', w_remote').
      bind (review_models ev w_self' w_remote') (\<lambda>new_w s4.
      (Inr (w_self', w_remote', new_w),
       s4\<lparr>model_weights := Some \<lparr>l = new_w, lmw_fit_intercept = fit_intercept s4\<rparr>\<rparr>)))) s)"

text \<open>The \<open>for\<close> loop over \<open>enumerate(encoded_batch_data)\<close>; \<open>new_w\<close> is unbound before the first batch.\<close>

fun batch_loop :: "env \<Rightarrow> (nat \<times> table_tensor) list \<Rightarrow> fp_share \<times> fp_share \<times> real list option \<Rightarrow> party \<Rightarrow> (error + fp_share \<times> fp_share \<times> real list option) \<times> party" where
  "batch_loop ev [] loc s = (Inr loc, s)"
| "batch_loop ev ((batch_idx, batch_data) # rest) (w_self, w_remote, new_w) s =
     (case batch_step ev batch_idx batch_data w_self w_remote s of
        (Inl e, s') \<Rightarrow> (Inl e, s')
      | (Inr (w_self', w_remote', new_w'), s') \<Rightarrow> batch_loop ev rest (w_self', w_remote', Some new_w') s')"

text \<open>
  What one call of a modelled method leaves alone: the role, the parameters, the loop
  counter and its cap, and the labels; the trace only grows. The \<open>while\<close> loop below
  terminates because its body keeps the counter and the cap.
\<close>

definition frame :: "party \<Rightarrow> party \<Rightarrow> bool" where
  "frame s s' \<longleftrightarrow>
     role s' = role s \<and> review_strategy s' = review_strategy s \<and>
     fit_intercept s' = fit_intercept s \<and> n_iter s' = n_iter s \<and>
     max_iter s' = max_iter s \<and> labels s' = labels s \<and>
     (\<exists>t. trace s' = trace s @ t)"

lemma frame_refl: "frame s s"
  by (simp add: frame_def)

lemma frame_trans: "frame s s1 \<Longrightarrow> frame s1 s2 \<Longrightarrow> frame s s2"
  unfolding frame_def by auto

lemma frame_bind:
  assumes "\<And>s. frame s (snd (f s))" and "\<And>a s. frame s (snd (g a s))"
  shows "frame s (snd (bind f g s))"
proof (cases "f s")
  case (Pair r s1)
  have fs: "frame s s1" using assms(1)[of s] Pair by simp
  show ?thesis
  proof (cases r)
    case (Inl e)
    then show ?thesis using Pair fs by (simp add: bind_def)
  next
    case (Inr a)
    have "frame s1 (snd (g a s1))" by (rule assms(2))
    then show ?thesis using Pair Inr fs by (auto simp: bind_def intro: frame_trans)
  qed
qed

lemma frame_reconstruct_unilateral: "frame s (snd (reconstruct_unilateral ev t name s))"
  by (simp add: reconstruct_unilateral_def frame_def Let_def split: option.split)

lemma frame_broadcast_reconstruct_share: "frame s (snd (broadcast_reconstruct_share t name s))"
  by (simp add: broadcast_reconstruct_share_def frame_def)

lemma frame_set_model_weights: "frame s (snd (set_model_weights w s))"
  by (simp add: set_model_weights_def frame_def)

lemma frame_review_models: "frame s (snd (review_models ev w_self w_remote s))"
  unfolding review_models_def
  by (auto intro!: frame_bind frame_reconstruct_unilateral frame_broadcast_reconstruct_share
        frame_set_model_weights simp: frame_refl)
     (simp_all add: frame_def)

lemma frame_batch_step: "frame s (snd (batch_step ev i b w_self w_remote s))"
  unfolding batch_step_def Let_def
  apply (rule frame_bind)
   apply (simp add: cal_prediction_call_def frame_def)
  apply (rule frame_bind)
   apply (auto split: option.split simp: frame_refl compute_gradient_call_def
      intro!: frame_bind frame_review_models)
     apply (simp_all add: frame_def)
  done

lemma frame_batch_loop: "batch_loop ev bs loc s = (r, s') \<Longrightarrow> frame s s'"
proof (induction ev bs loc s rule: batch_loop.induct)
  case (1 ev loc s)
  then show ?case by (simp add: frame_refl)
next
  case (2 ev batch_idx batch_data rest w_self w_remote new_w s)
  obtain r1 s1 where st: "batch_step ev batch_idx batch_data w_self w_remote s = (r1, s1)"
    by (cases "batch_step ev batch_idx batch_data w_self w_remote s")
  have f1: "frame s s1" using frame_batch_step[of s ev batch_idx batch_data w_self w_remote] st by simp
  show ?case
  proof (cases r1)
    case (Inl e)
    then show ?thesis using "2.prems" st f1 by simp
  next
    case (Inr x)
    obtain a b c where x: "x = (a, b, c)" by (cases x)
    have "frame s1 s'" using "2.IH"[OF st[symmetric] Inr x[symmetric]] "2.prems" st Inr x
      by simp
    then show ?thesis using f1 by (rule frame_trans[rotated])
  qed
qed

text \<open>
  One pass through the body of the \<open>while\<close> loop, up to the test of \<open>is_converged\<close>: the
  \<open>for\<close> loop, the convergence check with the suffix \<open>(n_iter_,)\<close>, the new \<open>last_models\<close>.
  With no batch, \<open>new_w\<close> is read before it is bound.
\<close>

definition iteration :: "env \<Rightarrow> table_tensor list \<Rightarrow> fp_share \<times> fp_share \<times> real list option \<Rightarrow> real list \<times> linear_model_weights option \<Rightarrow> party \<Rightarrow> (error + (fp_share \<times> fp_share \<times> real list option) \<times> (real list \<times> linear_model_weights option)) \<times> party" where
  "iteration ev encoded_batch_data loc last_models s =
     (case batch_loop ev (List.enumerate 0 encoded_batch_data) loc s of
        (Inl e, s1) \<Rightarrow> (Inl e, s1)
      | (Inr (w_self, w_remote, None), s1) \<Rightarrow> (Inl UnboundLocalError, s1)
      | (Inr (w_self, w_remote, Some new_w), s1) \<Rightarrow>
          (case check_converge ev last_models new_w [SInt (n_iter s1)] of
             Inl e \<Rightarrow> (Inl e, s1)
           | Inr c \<Rightarrow>
               (let s2 = s1\<lparr>is_converged := c,
                             trace := trace s1 @ [CheckConverge [SInt (n_iter s1)] c]\<rparr>
                in (Inr ((w_self, w_remote, Some new_w), (new_w, hosted_model_weights s2)), s2))))"

lemma frame_iteration: "iteration ev bs loc last_models s = (r, s') \<Longrightarrow> frame s s'"
proof -
  assume a: "iteration ev bs loc last_models s = (r, s')"
  obtain r1 s1 where b: "batch_loop ev (List.enumerate 0 bs) loc s = (r1, s1)"
    by (cases "batch_loop ev (List.enumerate 0 bs) loc s")
  have f1: "frame s s1" using frame_batch_loop[OF b] .
  have "frame s1 s'"
    using a b unfolding iteration_def
    by (auto simp: frame_def Let_def split: sum.splits option.splits prod.splits)
  with f1 show ?thesis by (rule frame_trans)
qed

text \<open>
  The \<open>while\<close> loop of \<open>fit_binary\<close>, with its local variables \<open>w_self\<close>, \<open>w_remote\<close>, \<open>new_w\<close>
  and \<open>last_models\<close>: stop when the counter has reached the cap, \<open>break\<close> when the check
  has set \<open>is_converged\<close>, count up otherwise.
\<close>

function fit_loop :: "env \<Rightarrow> table_tensor list \<Rightarrow> fp_share \<times> fp_share \<times> real list option \<Rightarrow> real list \<times> linear_model_weights option \<Rightarrow> party \<Rightarrow> (error + unit) \<times> party" where
  "fit_loop ev encoded_batch_data loc last_models s =
     (if n_iter s < max_iter s then
        (case iteration ev encoded_batch_data loc last_models s of
           (Inl e, s1) \<Rightarrow> (Inl e, s1)
         | (Inr (loc', last_models'), s1) \<Rightarrow>
             if is_converged s1 then (Inr (), s1)
             else fit_loop ev encoded_batch_data loc' last_models' (s1\<lparr>n_iter := n_iter s1 + 1\<rparr>))
      else (Inr (), s))"
  by pat_completeness simp_all
termination
proof (relation "measure (\<lambda>(ev, bs, loc, last_models, s). nat (max_iter s - n_iter s))", goal_cases)
  case 1
  then show ?case by simp
next
  case (2 ev bs loc last_models s x1 s1 x2 loc' last')
  have "frame s s1" using frame_iteration[of ev bs loc last_models s x1 s1] 2 by simp
  then show ?case using 2 by (simp add: frame_def)
qed

declare fit_loop.simps [simp del]

text \<open>
  \<open>fit_binary\<close> from the point where its collaborators have produced the initial weights
  \<open>w\<close>, the label table of the data and the encoded batches: \<open>last_models\<close>, the labels
  (Guest only), \<open>share_init_model\<close> with the default \<open>n_iter=-1\<close>, then the loop.
\<close>

definition fit_binary :: "env \<Rightarrow> real list \<Rightarrow> (nat \<times> real) list \<Rightarrow> table_tensor list \<Rightarrow> party \<Rightarrow> (error + unit) \<times> party" where
  "fit_binary ev w data_labels encoded_batch_data s =
     (let last_models = (w, hosted_model_weights s);
          s0 = (if role s = GUEST then s\<lparr>labels := Some data_labels\<rparr> else s)
      in bind (share_init_model ev w (- 1)) (\<lambda>(w_self, w_remote).
           fit_loop ev encoded_batch_data (w_self, w_remote, None) last_models) s0)"

subsection \<open>share\_z\<close>




subsection \<open>Traces\<close>

text \<open>The events of the two disclosure primitives, and those of \<open>share_init_model\<close>.\<close>

fun is_disclosure :: "event \<Rightarrow> bool" where
  "is_disclosure (ReconstructUnilateral _) = True"
| "is_disclosure (BroadcastReconstructShare _ _) = True"
| "is_disclosure _ = False"

fun is_from_source :: "event \<Rightarrow> bool" where
  "is_from_source (FromSource _) = True"
| "is_from_source _ = False"

text \<open>
  The events of one pass through the body of the \<open>for\<close> loop. At the Guest: the
  prediction, the plaintext error (the prediction's values minus the labels, joined by key),
  the gradient step on the error wrapped by \<open>from_value\<close>, then disclosures. At any other
  role: the prediction, the gradient step on the prediction itself, then disclosures. A
  pass that fails in the prediction, or at the Guest for want of labels, stops after it.
\<close>

inductive batch_trace :: "env \<Rightarrow> role \<Rightarrow> (nat \<times> real) list option \<Rightarrow> event list \<Rightarrow> bool"
  for ev :: env and r :: role and lab :: "(nat \<times> real) list option" where
  guest_batch:
    "r = GUEST \<Longrightarrow> lab = Some lb \<Longrightarrow> cal_prediction ev r w_self w_remote features suffix = Inr y \<Longrightarrow>
     list_all is_disclosure d \<Longrightarrow>
     batch_trace ev r lab
       ([CalPrediction suffix, PlainError (join (table_val y) lb (\<lambda>a b. a - b)),
         ComputeGradient suffix (from_value ev (join (table_val y) lb (\<lambda>a b. a - b)))] @ d)"
| other_batch:
    "r \<noteq> GUEST \<Longrightarrow> cal_prediction ev r w_self w_remote features suffix = Inr y \<Longrightarrow>
     list_all is_disclosure d \<Longrightarrow>
     batch_trace ev r lab ([CalPrediction suffix, ComputeGradient suffix y] @ d)"
| failed_batch:
    "batch_trace ev r lab [CalPrediction suffix]"

text \<open>The events of a \<open>for\<close> loop, and those of a run of the \<open>while\<close> loop.\<close>

inductive batches_trace :: "env \<Rightarrow> role \<Rightarrow> (nat \<times> real) list option \<Rightarrow> event list \<Rightarrow> bool"
  for ev :: env and r :: role and lab :: "(nat \<times> real) list option" where
  batches_nil: "batches_trace ev r lab []"
| batches_cons: "batch_trace ev r lab b \<Longrightarrow> batches_trace ev r lab t \<Longrightarrow> batches_trace ev r lab (b @ t)"

inductive run_trace :: "env \<Rightarrow> role \<Rightarrow> (nat \<times> real) list option \<Rightarrow> event list \<Rightarrow> bool"
  for ev :: env and r :: role and lab :: "(nat \<times> real) list option" where
  run_nil: "run_trace ev r lab []"
| run_batch: "batch_trace ev r lab b \<Longrightarrow> run_trace ev r lab t \<Longrightarrow> run_trace ev r lab (b @ t)"
| run_check: "run_trace ev r lab t \<Longrightarrow> run_trace ev r lab (CheckConverge suffix c # t)"

text \<open>The convergence checks of a trace, in order, each with its suffix and its answer.\<close>

definition checks :: "event list \<Rightarrow> (sfx list \<times> bool) list" where
  "checks t = List.map_filter (\<lambda>e. case e of CheckConverge suffix c \<Rightarrow> Some (suffix, c) | _ \<Rightarrow> None) t"

text \<open>
  How the \<open>while\<close> loop that started at counter \<open>n\<close> under the cap ended in iteration \<open>k\<close>:
  every check before was negative; on return the last event is the check of iteration
  \<open>k\<close>, which either reported convergence (the counter stays at \<open>k\<close>) or was the last
  one under the cap (the counter is the cap); on an exception the counter is \<open>k\<close>.
\<close>

definition loop_outcome :: "int \<Rightarrow> int \<Rightarrow> error + unit \<Rightarrow> party \<Rightarrow> event list \<Rightarrow> int \<Rightarrow> bool" where
  "loop_outcome n cap r s' t k \<longleftrightarrow>
     (case r of
        Inr _ \<Rightarrow>
          checks t = map (\<lambda>i. ([SInt i], False)) [n..k - 1] @ [([SInt k], is_converged s')]
          \<and> t \<noteq> [] \<and> last t = CheckConverge [SInt k] (is_converged s')
          \<and> (if is_converged s' then n_iter s' = k else k = cap - 1 \<and> n_iter s' = cap)
      | Inl e \<Rightarrow> checks t = map (\<lambda>i. ([SInt i], False)) [n..k - 1] \<and> n_iter s' = k)"

text \<open>The tensor names used by the disclosure primitives, and the suffixes of the predictions.\<close>

definition tensor_names :: "event list \<Rightarrow> string list" where
  "tensor_names t = List.map_filter (\<lambda>e. case e of ReconstructUnilateral name \<Rightarrow> Some name
       | BroadcastReconstructShare name _ \<Rightarrow> Some name | _ \<Rightarrow> None) t"

definition suffixes :: "event list \<Rightarrow> sfx list list" where
  "suffixes t = List.map_filter (\<lambda>e. case e of CalPrediction suffix \<Rightarrow> Some suffix | _ \<Rightarrow> None) t"

section \<open>pipelined\_model.py: the local model cache\<close>

subsection \<open>Files and paths\<close>

text \<open>
  The file system: a tree of directories and files, kept as a map from resolved paths
  (the names from the root down) to nodes, with the root a directory, and the working
  directory of the process. There are no symbolic links and no permissions, and the lock
  file of \<open>self.lock\<close> is not part of it.
\<close>

datatype node = Dir | File string

record fs =
  nodes :: "string list \<Rightarrow> node option"
  cwd :: "string list"

definition node_at :: "fs \<Rightarrow> string list \<Rightarrow> node option" where
  "node_at f p = (if p = [] then Some Dir else nodes f p)"

text \<open>\<open>os.path.join\<close> of \<open>posixpath\<close>: an absolute component starts over.\<close>

definition path_join2 :: "string \<Rightarrow> string \<Rightarrow> string" where
  "path_join2 a b =
     (if b \<noteq> [] \<and> hd b = CHR ''/'' then b
      else if a = [] \<or> last a = CHR ''/'' then a @ b
      else a @ ''/'' @ b)"

definition os_path_join :: "string \<Rightarrow> string list \<Rightarrow> string" where
  "os_path_join a ps = foldl path_join2 a ps"

text \<open>
  Path resolution, as the operating system does it for a path string: the string is cut
  at its slashes, empty names are skipped, \<open>.\<close> stays and \<open>..\<close> goes up; every name but the
  last must be an existing directory. The result is the resolved path of the last name,
  present or not. The empty string names nothing.
\<close>

fun split_path :: "string \<Rightarrow> string list" where
  "split_path [] = [[]]"
| "split_path (c # cs) =
     (if c = CHR ''/'' then [] # split_path cs
      else (case split_path cs of [] \<Rightarrow> [[c]] | x # xs \<Rightarrow> (c # x) # xs))"

definition components :: "string \<Rightarrow> string list" where
  "components s = filter (\<lambda>c. c \<noteq> []) (split_path s)"

fun walk :: "fs \<Rightarrow> string list \<Rightarrow> string list \<Rightarrow> error + string list" where
  "walk f cur [] = Inr cur"
| "walk f cur (c # cs) =
     (if c = ''.'' then walk f cur cs
      else if c = ''..'' then walk f (butlast cur) cs
      else if cs = [] then Inr (cur @ [c])
      else (case node_at f (cur @ [c]) of
              None \<Rightarrow> Inl FileNotFoundError
            | Some (File _) \<Rightarrow> Inl NotADirectoryError
            | Some Dir \<Rightarrow> walk f (cur @ [c]) cs))"

definition start_dir :: "fs \<Rightarrow> string \<Rightarrow> string list" where
  "start_dir f s = (if s \<noteq> [] \<and> hd s = CHR ''/'' then [] else cwd f)"

definition resolve :: "fs \<Rightarrow> string \<Rightarrow> error + string list" where
  "resolve f s = (if s = [] then Inl FileNotFoundError else walk f (start_dir f s) (components s))"

definition trailing_slash :: "string \<Rightarrow> bool" where
  "trailing_slash s \<longleftrightarrow> s \<noteq> [] \<and> last s = CHR ''/''"

text \<open>\<open>os.stat\<close>: what is at a path. A file does not answer to its name followed by a slash.\<close>

definition stat :: "fs \<Rightarrow> string \<Rightarrow> error + node" where
  "stat f s =
     (case resolve f s of
        Inl e \<Rightarrow> Inl e
      | Inr p \<Rightarrow>
          (case node_at f p of
             None \<Rightarrow> Inl FileNotFoundError
           | Some Dir \<Rightarrow> Inr Dir
           | Some (File b) \<Rightarrow> if trailing_slash s then Inl NotADirectoryError else Inr (File b)))"

definition os_path_exists :: "fs \<Rightarrow> string \<Rightarrow> bool" where
  "os_path_exists f s = (case stat f s of Inl _ \<Rightarrow> False | Inr _ \<Rightarrow> True)"

definition os_path_isfile :: "fs \<Rightarrow> string \<Rightarrow> bool" where
  "os_path_isfile f s = (case stat f s of Inr (File _) \<Rightarrow> True | _ \<Rightarrow> False)"

text \<open>
  \<open>os.makedirs\<close>: the directories along the path are made where they are missing. The
  flag says whether the directory reached last was made by this call; if it was there
  before, that is an error unless \<open>exist_ok\<close>. A file on the way is an error: one that
  exists where the last directory should be, and one that is not a directory before that.
\<close>

fun mkdirs :: "bool \<Rightarrow> string list \<Rightarrow> string list \<Rightarrow> bool \<Rightarrow> fs \<Rightarrow> (error + unit) \<times> fs" where
  "mkdirs exist_ok cur [] made f =
     (if made \<or> exist_ok then (Inr (), f) else (Inl FileExistsError, f))"
| "mkdirs exist_ok cur (c # cs) made f =
     (if c = ''.'' then mkdirs exist_ok cur cs made f
      else if c = ''..'' then mkdirs exist_ok (butlast cur) cs False f
      else (case node_at f (cur @ [c]) of
              None \<Rightarrow> mkdirs exist_ok (cur @ [c]) cs True (f\<lparr>nodes := (nodes f)(cur @ [c] \<mapsto> Dir)\<rparr>)
            | Some Dir \<Rightarrow> mkdirs exist_ok (cur @ [c]) cs False f
            | Some (File _) \<Rightarrow>
                if cs = [] then (Inl FileExistsError, f) else (Inl NotADirectoryError, f)))"

definition os_makedirs :: "bool \<Rightarrow> string \<Rightarrow> fs \<Rightarrow> (error + unit) \<times> fs" where
  "os_makedirs exist_ok s f =
     (if s = [] then (Inl FileNotFoundError, f)
      else mkdirs exist_ok (start_dir f s) (components s) False f)"

text \<open>\<open>open(path, "rb").read()\<close>.\<close>

definition read_file :: "string \<Rightarrow> fs \<Rightarrow> (error + string) \<times> fs" where
  "read_file s f =
     (case stat f s of
        Inl e \<Rightarrow> (Inl e, f)
      | Inr Dir \<Rightarrow> (Inl IsADirectoryError, f)
      | Inr (File b) \<Rightarrow> (Inr b, f))"

text \<open>
  \<open>open(path, "wb").write(b)\<close>: the file is created or replaced in an existing directory. A
  path that names a directory, or ends in a slash, cannot be opened for writing.
\<close>

definition write_file :: "string \<Rightarrow> string \<Rightarrow> fs \<Rightarrow> (error + unit) \<times> fs" where
  "write_file s b f =
     (case resolve f s of
        Inl e \<Rightarrow> (Inl e, f)
      | Inr p \<Rightarrow>
          (case node_at f p of
             Some Dir \<Rightarrow> (Inl IsADirectoryError, f)
           | Some (File _) \<Rightarrow>
               if trailing_slash s then (Inl NotADirectoryError, f)
               else (Inr (), f\<lparr>nodes := (nodes f)(p \<mapsto> File b)\<rparr>)
           | None \<Rightarrow>
               if trailing_slash s then (Inl IsADirectoryError, f)
               else (case node_at f (butlast p) of
                       None \<Rightarrow> (Inl FileNotFoundError, f)
                     | Some (File _) \<Rightarrow> (Inl NotADirectoryError, f)
                     | Some Dir \<Rightarrow> (Inr (), f\<lparr>nodes := (nodes f)(p \<mapsto> File b)\<rparr>))))"

subsection \<open>Text\<close>

text \<open>
  A \<open>str\<close> is a list of code points. \<open>open(path, encoding="utf8").read()\<close> decodes the bytes
  of the file as UTF-8 (well-formed sequences only: no overlong forms, no surrogates,
  nothing over \<open>U+10FFFF\<close>) and turns \<open>\r\n\<close> and \<open>\r\<close> into \<open>\n\<close>.
\<close>

definition continuation :: "nat \<Rightarrow> bool" where
  "continuation b \<longleftrightarrow> 0x80 \<le> b \<and> b \<le> 0xBF"

fun utf8_decode :: "nat list \<Rightarrow> nat list option" where
  "utf8_decode [] = Some []"
| "utf8_decode (b0 # bs) =
     (if b0 < 0x80 then map_option ((#) b0) (utf8_decode bs)
      else if 0xC2 \<le> b0 \<and> b0 \<le> 0xDF then
        (case bs of
           b1 # r \<Rightarrow>
             if continuation b1
             then map_option ((#) ((b0 - 0xC0) * 64 + (b1 - 0x80))) (utf8_decode r)
             else None
         | _ \<Rightarrow> None)
      else if 0xE0 \<le> b0 \<and> b0 \<le> 0xEF then
        (case bs of
           b1 # b2 # r \<Rightarrow>
             if (if b0 = 0xE0 then 0xA0 else 0x80) \<le> b1 \<and> b1 \<le> (if b0 = 0xED then 0x9F else 0xBF)
                \<and> continuation b2
             then map_option ((#) ((b0 - 0xE0) * 4096 + (b1 - 0x80) * 64 + (b2 - 0x80)))
                    (utf8_decode r)
             else None
         | _ \<Rightarrow> None)
      else if 0xF0 \<le> b0 \<and> b0 \<le> 0xF4 then
        (case bs of
           b1 # b2 # b3 # r \<Rightarrow>
             if (if b0 = 0xF0 then 0x90 else 0x80) \<le> b1 \<and> b1 \<le> (if b0 = 0xF4 then 0x8F else 0xBF)
                \<and> continuation b2 \<and> continuation b3
             then map_option ((#) ((b0 - 0xF0) * 262144 + (b1 - 0x80) * 4096 + (b2 - 0x80) * 64
                                   + (b3 - 0x80)))
                    (utf8_decode r)
             else None
         | _ \<Rightarrow> None)
      else None)"

fun universal_newlines :: "nat list \<Rightarrow> nat list" where
  "universal_newlines [] = []"
| "universal_newlines [c] = [if c = 13 then 10 else c]"
| "universal_newlines (c # d # r) =
     (if c = 13 \<and> d = 10 then 10 # universal_newlines r
      else if c = 13 then 10 # universal_newlines (d # r)
      else c # universal_newlines (d # r))"

definition read_text :: "string \<Rightarrow> fs \<Rightarrow> (error + nat list) \<times> fs" where
  "read_text s f =
     (case read_file s f of
        (Inl e, f') \<Rightarrow> (Inl e, f')
      | (Inr b, f') \<Rightarrow>
          (case utf8_decode (map of_char b) of
             None \<Rightarrow> (Inl UnicodeDecodeError, f')
           | Some cps \<Rightarrow> (Inr (universal_newlines cps), f')))"

text \<open>
  \<open>str.strip()\<close>: the white space of \<open>str.isspace\<close>, that is, the code points \<open>U+0009\<close> to
  \<open>U+000D\<close>, \<open>U+001C\<close> to \<open>U+0020\<close>, \<open>U+0085\<close>, \<open>U+00A0\<close>, \<open>U+1680\<close>, \<open>U+2000\<close> to \<open>U+200A\<close>,
  \<open>U+2028\<close>, \<open>U+2029\<close>, \<open>U+202F\<close>, \<open>U+205F\<close> and \<open>U+3000\<close>. The text of an ASCII string.
  \<open>str.rstrip(chars)\<close> for ASCII \<open>chars\<close>, on the bytes of the string.
\<close>

definition isspace :: "nat \<Rightarrow> bool" where
  "isspace c \<longleftrightarrow>
     (0x09 \<le> c \<and> c \<le> 0x0D) \<or> (0x1C \<le> c \<and> c \<le> 0x20) \<or> c = 0x85 \<or> c = 0xA0 \<or> c = 0x1680
     \<or> (0x2000 \<le> c \<and> c \<le> 0x200A) \<or> c = 0x2028 \<or> c = 0x2029 \<or> c = 0x202F \<or> c = 0x205F
     \<or> c = 0x3000"

definition strip :: "nat list \<Rightarrow> nat list" where
  "strip s = rev (dropWhile isspace (rev (dropWhile isspace s)))"

definition ascii_str :: "string \<Rightarrow> nat list" where
  "ascii_str s = map of_char s"

definition rstrip :: "string \<Rightarrow> string \<Rightarrow> string" where
  "rstrip s chars = rev (dropWhile (\<lambda>c. c \<in> set chars) (rev s))"

subsection \<open>Protocol buffers and the other collaborators\<close>

text \<open>
  A protocol-buffer class, as far as the file uses one: \<open>cls().ParseFromString(b)\<close>, which
  clears the object and either fills it from \<open>b\<close> or raises. A member of a generated
  module is such a class or something else.
\<close>

record 'o proto_class =
  ParseFromString :: "string \<Rightarrow> 'o option"

datatype 'o member = Class "'o proto_class" | NotClass

text \<open>
  \<open>define_meta.yaml\<close> as far as the file reads it: \<open>component_define\<close> (the module name
  of each component) and \<open>model_proto\<close> (component, alias, model name, class name), as
  dictionaries in insertion order.
\<close>

record define_index =
  component_define :: "(string \<times> string) list"
  model_proto :: "(string \<times> (string \<times> (string \<times> string) list) list) list"

text \<open>What \<open>save_component_model\<close> hands to a tracker client.\<close>

record component_model =
  buffer :: "(string \<times> string) list"
  cm_component_name :: string
  cm_component_module_name :: string
  cm_model_alias :: string
  cm_model_proto_index :: "(string \<times> string) list"

text \<open>
  The collaborators that are not in the file: the directory listing and the modules of
  the package \<open>federatedml.protobuf.generated\<close> (\<open>None\<close>: the import raises);
  \<open>SerializeToString\<close> and the class name of a buffer object; the serialized
  \<open>DefaultEmptyFillMessage\<close> with \<open>flag = 'set'\<close> and whether bytes parse as that message;
  YAML, base64, SHA-1 (the hexadecimal digest, an ASCII string) and the archive format; the project's base directory, the
  temporary directory, and \<open>storage_path.replace(base, "")\<close>.
\<close>

record 'o pm_env =
  listdir_generated :: "string list"
  import_module :: "string \<Rightarrow> (string \<times> 'o member) list option"
  SerializeToString :: "'o \<Rightarrow> string"
  type_name :: "'o \<Rightarrow> string"
  fill_message_set :: string
  fill_message_parses :: "string \<Rightarrow> bool"
  yaml_load :: "string \<Rightarrow> define_index option"
  yaml_dump :: "define_index \<Rightarrow> string"
  b64encode :: "string \<Rightarrow> string"
  sha1_hexdigest :: "string \<Rightarrow> string"
  unpack_archive :: "string \<Rightarrow> string \<Rightarrow> fs \<Rightarrow> (error + unit) \<times> fs"
  project_base_directory :: string
  strip_base_directory :: "string \<Rightarrow> string"

subsection \<open>PipelinedModel\<close>

record pipelined_model =
  model_id :: string
  model_version :: string
  model_path :: string
  define_meta_path :: string
  variables_data_path :: string

text \<open>\<open>__init__\<close>, for the paths the modelled methods use.\<close>

definition PipelinedModel :: "'o pm_env \<Rightarrow> string \<Rightarrow> string \<Rightarrow> pipelined_model" where
  "PipelinedModel ev mid mversion =
     (let mp = os_path_join (project_base_directory ev) [''model_local_cache'', mid, mversion] in
      \<lparr>model_id = mid, model_version = mversion, model_path = mp,
       define_meta_path = os_path_join mp [''define'', ''define_meta.yaml''],
       variables_data_path = os_path_join mp [''variables'', ''data'']\<rparr>)"

definition exists_cache :: "pipelined_model \<Rightarrow> fs \<Rightarrow> bool" where
  "exists_cache self f = os_path_exists f (model_path self)"

text \<open>The decorator \<open>local_cache_required\<close>.\<close>

definition local_cache_required :: "pipelined_model \<Rightarrow> (fs \<Rightarrow> (error + 'a) \<times> fs) \<Rightarrow> fs \<Rightarrow> (error + 'a) \<times> fs" where
  "local_cache_required self method f =
     (if \<not> exists_cache self f then (Inl FileNotFoundError, f) else method f)"

text \<open>\<open>d.get(k, {})\<close> and \<open>d.update(other)\<close> on dictionaries in insertion order.\<close>

definition get_or_empty :: "('k \<times> ('a \<times> 'b) list) list \<Rightarrow> 'k \<Rightarrow> ('a \<times> 'b) list" where
  "get_or_empty d k = (case map_of d k of None \<Rightarrow> [] | Some v \<Rightarrow> v)"

definition dict_update :: "('k \<times> 'v) list \<Rightarrow> ('k \<times> 'v) list \<Rightarrow> ('k \<times> 'v) list" where
  "dict_update d other = fold (\<lambda>(k, v). AList.update k v) other d"

definition update_component_meta :: "'o pm_env \<Rightarrow> pipelined_model \<Rightarrow> string \<Rightarrow> string \<Rightarrow> string \<Rightarrow> (string \<times> string) list \<Rightarrow> fs \<Rightarrow> (error + unit) \<times> fs" where
  "update_component_meta ev self component_name component_module_name model_alias model_proto_index =
     local_cache_required self
       (bind (read_file (define_meta_path self)) (\<lambda>text f.
          case yaml_load ev text of
            None \<Rightarrow> (Inl ValueError, f)
          | Some d \<Rightarrow>
              (let by_alias = get_or_empty (model_proto d) component_name;
                   index' = dict_update (get_or_empty by_alias model_alias) model_proto_index;
                   d' = d\<lparr>component_define :=
                            AList.update component_name component_module_name (component_define d),
                          model_proto :=
                            AList.update component_name
                              (AList.update model_alias index' by_alias) (model_proto d)\<rparr>
               in if d' \<noteq> d then write_file (define_meta_path self) (yaml_dump ev d') f
                  else (Inr (), f))))"

definition get_model_proto_index :: "'o pm_env \<Rightarrow> pipelined_model \<Rightarrow> string \<Rightarrow> string \<Rightarrow> fs \<Rightarrow> (error + (string \<times> string) list) \<times> fs" where
  "get_model_proto_index ev self component_name model_alias =
     local_cache_required self
       (bind (read_file (define_meta_path self)) (\<lambda>text f.
          case yaml_load ev text of
            None \<Rightarrow> (Inl AttributeError, f)
          | Some d \<Rightarrow>
              (Inr (get_or_empty (get_or_empty (model_proto d) component_name) model_alias), f)))"

subsection \<open>parse\_proto\_object\<close>

text \<open>
  \<open>get_proto_buffer_class\<close>: the files of the package in the order of the listing, hidden
  files skipped, the module name by \<open>f.rstrip('.py')\<close>, a failed import skipped, the first
  member that is a class of the name; \<open>None\<close> after the last file.
\<close>

definition find_class :: "string \<Rightarrow> (string \<times> 'o member) list \<Rightarrow> 'o proto_class option" where
  "find_class buffer_name members =
     (case filter (\<lambda>(name, obj). (case obj of Class _ \<Rightarrow> True | NotClass \<Rightarrow> False) \<and> name = buffer_name) members of
        (_, Class c) # _ \<Rightarrow> Some c
      | _ \<Rightarrow> None)"

fun get_proto_buffer_class_from :: "'o pm_env \<Rightarrow> string list \<Rightarrow> string \<Rightarrow> 'o proto_class option" where
  "get_proto_buffer_class_from ev [] buffer_name = None"
| "get_proto_buffer_class_from ev (f # rest) buffer_name =
     (if f \<noteq> [] \<and> hd f = CHR ''.'' then get_proto_buffer_class_from ev rest buffer_name
      else
        (case import_module ev (''federatedml.protobuf.generated'' @ ''.'' @ rstrip f ''.py'') of
           None \<Rightarrow> get_proto_buffer_class_from ev rest buffer_name
         | Some members \<Rightarrow>
             (case find_class buffer_name members of
                Some c \<Rightarrow> Some c
              | None \<Rightarrow> get_proto_buffer_class_from ev rest buffer_name)))"

definition get_proto_buffer_class :: "'o pm_env \<Rightarrow> string \<Rightarrow> 'o proto_class option" where
  "get_proto_buffer_class ev buffer_name =
     get_proto_buffer_class_from ev (listdir_generated ev) buffer_name"

text \<open>
  \<open>parse_proto_object\<close>: calling \<open>None\<close> raises \<open>TypeError\<close>; the class's own parse first;
  when it raises, the bytes are tried as \<open>DefaultEmptyFillMessage\<close> and the object is
  filled from the empty byte string; a failure there raises the first parse's error.
\<close>

definition parse_proto_object :: "'o pm_env \<Rightarrow> string \<Rightarrow> string \<Rightarrow> error + 'o" where
  "parse_proto_object ev buffer_name buffer_object_serialized_string =
     (case get_proto_buffer_class ev buffer_name of
        None \<Rightarrow> Inl TypeError
      | Some cls \<Rightarrow>
          (case ParseFromString cls buffer_object_serialized_string of
             Some buffer_object \<Rightarrow> Inr buffer_object
           | None \<Rightarrow>
               (if fill_message_parses ev buffer_object_serialized_string then
                  (case ParseFromString cls [] of
                     Some buffer_object \<Rightarrow> Inr buffer_object
                   | None \<Rightarrow> Inl DecodeError)
                else Inl DecodeError)))"

subsection \<open>save\_component\_model and read\_component\_model\<close>

text \<open>The bytes stored for a buffer object: its serialization, or the fill message when that is empty.\<close>

definition serialized_for_storage :: "'o pm_env \<Rightarrow> 'o \<Rightarrow> string" where
  "serialized_for_storage ev buffer_object =
     (let buffer_object_serialized_string = SerializeToString ev buffer_object in
      if buffer_object_serialized_string = [] then fill_message_set ev
      else buffer_object_serialized_string)"

text \<open>
  The loop of \<open>save_component_model\<close> over \<open>model_buffers.items()\<close>. Without a tracker
  client each buffer is written to its storage path; with one it is collected, base64
  encoded, under its path relative to the base directory. Both fill \<open>model_proto_index\<close>.
\<close>

fun save_buffers :: "'o pm_env \<Rightarrow> bool \<Rightarrow> string \<Rightarrow> (string \<times> 'o) list \<Rightarrow> (string \<times> string) list \<times> (string \<times> string) list \<Rightarrow> fs \<Rightarrow> (error + (string \<times> string) list \<times> (string \<times> string) list) \<times> fs" where
  "save_buffers ev tracker component_model_storage_path [] acc f = (Inr acc, f)"
| "save_buffers ev tracker component_model_storage_path ((model_name, buffer_object) # rest)
       (model_proto_index, buf) f =
     (let storage_path = os_path_join component_model_storage_path [model_name];
          buffer_object_serialized_string = serialized_for_storage ev buffer_object;
          model_proto_index' = AList.update model_name (type_name ev buffer_object) model_proto_index
      in if \<not> tracker then
           (case write_file storage_path buffer_object_serialized_string f of
              (Inl e, f') \<Rightarrow> (Inl e, f')
            | (Inr _, f') \<Rightarrow>
                save_buffers ev tracker component_model_storage_path rest (model_proto_index', buf) f')
         else
           save_buffers ev tracker component_model_storage_path rest
             (model_proto_index',
              AList.update (strip_base_directory ev storage_path)
                (b64encode ev buffer_object_serialized_string) buf) f)"

text \<open>
  \<open>save_component_model\<close>. Its result is what the tracker client receives, if there is
  one (\<open>tracker_client.save_component_output_model\<close> is the client's business).
\<close>

definition save_component_model :: "'o pm_env \<Rightarrow> pipelined_model \<Rightarrow> string \<Rightarrow> string \<Rightarrow> string \<Rightarrow> (string \<times> 'o) list \<Rightarrow> bool \<Rightarrow> fs \<Rightarrow> (error + component_model option) \<times> fs" where
  "save_component_model ev self component_name component_module_name model_alias model_buffers tracker_client =
     (let component_model_storage_path =
            os_path_join (variables_data_path self) [component_name, model_alias] in
      bind (\<lambda>f. if \<not> tracker_client then os_makedirs True component_model_storage_path f
                 else (Inr (), f)) (\<lambda>_.
      bind (save_buffers ev tracker_client component_model_storage_path model_buffers ([], [])) (\<lambda>(model_proto_index, buf).
        if \<not> tracker_client then
          bind (update_component_meta ev self component_name component_module_name model_alias
                  model_proto_index) (\<lambda>_ f. (Inr None, f))
        else
          (\<lambda>f. (Inr (Some \<lparr>buffer = buf, cm_component_name = component_name,
                    cm_component_module_name = component_module_name,
                    cm_model_alias = model_alias,
                    cm_model_proto_index = model_proto_index\<rparr>), f)))))"

text \<open>An entry of the dictionary that \<open>read_component_model\<close> returns.\<close>

datatype 'o read_item = Parsed 'o | Raw string string

fun read_buffers :: "'o pm_env \<Rightarrow> bool \<Rightarrow> string \<Rightarrow> (string \<times> string) list \<Rightarrow> (string \<times> 'o read_item) list \<Rightarrow> fs \<Rightarrow> (error + (string \<times> 'o read_item) list) \<times> fs" where
  "read_buffers ev parse component_model_storage_path [] model_buffers f = (Inr model_buffers, f)"
| "read_buffers ev parse component_model_storage_path ((model_name, buffer_name) # rest) model_buffers f =
     (case read_file (os_path_join component_model_storage_path [model_name]) f of
        (Inl e, f') \<Rightarrow> (Inl e, f')
      | (Inr buffer_object_serialized_string, f') \<Rightarrow>
          if parse then
            (case parse_proto_object ev buffer_name buffer_object_serialized_string of
               Inl e \<Rightarrow> (Inl e, f')
             | Inr buffer_object \<Rightarrow>
                 read_buffers ev parse component_model_storage_path rest
                   (AList.update model_name (Parsed buffer_object) model_buffers) f')
          else
            read_buffers ev parse component_model_storage_path rest
              (AList.update model_name (Raw buffer_name (b64encode ev buffer_object_serialized_string))
                 model_buffers) f')"

definition read_component_model :: "'o pm_env \<Rightarrow> pipelined_model \<Rightarrow> string \<Rightarrow> string \<Rightarrow> bool \<Rightarrow> fs \<Rightarrow> (error + (string \<times> 'o read_item) list) \<times> fs" where
  "read_component_model ev self component_name model_alias parse =
     (let component_model_storage_path =
            os_path_join (variables_data_path self) [component_name, model_alias] in
      bind (get_model_proto_index ev self component_name model_alias) (\<lambda>model_proto_index.
      read_buffers ev parse component_model_storage_path model_proto_index []))"

subsection \<open>unpack\_model\<close>

definition unpack_model :: "'o pm_env \<Rightarrow> pipelined_model \<Rightarrow> string \<Rightarrow> fs \<Rightarrow> (error + unit) \<times> fs" where
  "unpack_model ev self archive_file_path f =
     (if exists_cache self f then (Inl FileExistsError, f)
      else
        bind (\<lambda>f. if os_path_isfile f (archive_file_path @ ''.sha1'') then
                     bind (read_text (archive_file_path @ ''.sha1'')) (\<lambda>text.
                     bind (read_file archive_file_path) (\<lambda>content f.
                       let sha1_orig = strip text;
                           sha1 = ascii_str (sha1_hexdigest ev content) in
                       if sha1 \<noteq> sha1_orig then (Inl ValueError, f) else (Inr (), f))) f
                   else (Inr (), f)) (\<lambda>_.
        bind (os_makedirs False (model_path self)) (\<lambda>_.
        unpack_archive ev archive_file_path (model_path self))) f)"

section \<open>Example values\<close>

text \<open>Small collaborators and states, on which the properties below are evaluated.\<close>

definition example_env :: env where
  "example_env =
     \<lparr>super_init_model = (\<lambda>params s. (Inr (),
        s\<lparr>review_strategy := param_review_strategy params,
          fit_intercept := param_fit_intercept params,
          max_iter := param_max_iter params,
          key_length := param_key_length params\<rparr>)),
      inbox = map_of [(''wb_0'', [3]), (''wa_0'', [5])],
      decode = real_of_int,
      from_source = (\<lambda>name src. Inr \<lparr>share_val = [0], q_field = 7\<rparr>),
      from_value = FixedPointTensor,
      cal_prediction = (\<lambda>r w_self w_remote features suffix. Inr features),
      compute_gradient = (\<lambda>r wa wb err features suffix. Inr (wa, wb)),
      check_converge = (\<lambda>last_models new_w suffix. Inr False),
      distribute_encrypt = (\<lambda>key. map (\<lambda>(k, x). (k, \<lfloor>x\<rfloor>))),
      get_parties = (\<lambda>suffix. [[(0, 5)]]),
      encoder_n = 7\<rparr>"

definition example_party :: "role \<Rightarrow> string \<Rightarrow> party" where
  "example_party r strategy =
     \<lparr>role = r, review_strategy = strategy, fit_intercept = True, n_iter = 0, max_iter = 1,
      key_length = 1024, cipher = None, is_converged = False, labels = None,
      model_weights = None, hosted_model_weights = None, trace = []\<rparr>"

definition example_open_env :: env where
  "example_open_env = example_env\<lparr>inbox := (\<lambda>name. Some [5])\<rparr>"

definition example_shares :: "fp_share \<times> fp_share \<times> real list option" where
  "example_shares = (\<lparr>share_val = [2], q_field = 7\<rparr>, \<lparr>share_val = [4], q_field = 7\<rparr>, None)"

definition example_batch :: table_tensor where
  "example_batch = FixedPointTensor [(0, 1), (1, 3)]"

definition example_param :: "string \<Rightarrow> logistic_regression_param" where
  "example_param strategy =
     \<lparr>param_review_strategy = strategy, param_fit_intercept = True, param_max_iter = 1,
      param_key_length = 1024\<rparr>"

text \<open>
  A message with one string field, numbered 1, in the two wire forms the examples use: no
  bytes (the field has its default, the empty string) and one length-delimited field 1
  (the tag byte \<open>0x0A\<close>, a length below 128, the bytes). \<open>DefaultEmptyFillMessage\<close> is
  taken to be such a message, so its serialization with \<open>flag = 'set'\<close> is \<open>0A 03 73 65 74\<close>.
  The class \<open>Meta\<close> reads these forms; the class \<open>Strict\<close> stands for one whose own parser
  rejects the fill message (as a class does whose field 1 is an embedded message).
\<close>

datatype example_message = Message (class_of: string) (field1: string)

definition example_serialize :: "example_message \<Rightarrow> string" where
  "example_serialize m =
     (if field1 m = [] then [] else [CHR 0x0A, char_of (length (field1 m))] @ field1 m)"

definition example_parse :: "string \<Rightarrow> string \<Rightarrow> example_message option" where
  "example_parse c b =
     (case b of
        [] \<Rightarrow> Some (Message c [])
      | [t] \<Rightarrow> None
      | t # n # rest \<Rightarrow>
          if t = CHR 0x0A \<and> of_char n = length rest \<and> length rest < 128 then Some (Message c rest)
          else None)"

definition example_strict_parse :: "string \<Rightarrow> string \<Rightarrow> example_message option" where
  "example_strict_parse c b = (if b = [] then Some (Message c []) else None)"

definition example_index :: "(string \<times> string) list \<Rightarrow> define_index" where
  "example_index idx = \<lparr>component_define = [(''lr_0'', ''HeteroLR'')],
                         model_proto = [(''lr_0'', [(''train'', idx)])]\<rparr>"

definition example_pm_env :: "example_message pm_env" where
  "example_pm_env =
     \<lparr>listdir_generated = [''.gitignore'', ''__init__.py'', ''meta_pb2.py'', ''strict_pb2.py''],
      import_module = map_of
        [(''federatedml.protobuf.generated.__init__'', []),
         (''federatedml.protobuf.generated.meta_pb2'',
            [(''DESCRIPTOR'', NotClass),
             (''Meta'', Class \<lparr>ParseFromString = example_parse ''Meta''\<rparr>)]),
         (''federatedml.protobuf.generated.strict_pb2'',
            [(''Strict'', Class \<lparr>ParseFromString = example_strict_parse ''Strict''\<rparr>)])],
      SerializeToString = example_serialize,
      type_name = class_of,
      fill_message_set = [CHR 0x0A, CHR 0x03, CHR ''s'', CHR ''e'', CHR ''t''],
      fill_message_parses = (\<lambda>b. example_parse ''DefaultEmptyFillMessage'' b \<noteq> None),
      yaml_load = (\<lambda>text. if text = ''{}'' then Some \<lparr>component_define = [], model_proto = []\<rparr>
                            else if text = ''meta'' then Some (example_index [(''HeteroLRMeta'', ''Meta'')])
                            else if text = ''strict'' then Some (example_index [(''HeteroLRMeta'', ''Strict'')])
                            else None),
      yaml_dump = (\<lambda>d. if d = example_index [(''HeteroLRMeta'', ''Meta'')] then ''meta''
                         else if d = example_index [(''HeteroLRMeta'', ''Strict'')] then ''strict''
                         else ''other''),
      b64encode = id,
      sha1_hexdigest = (\<lambda>content. if content = ''archive'' then ''0f'' else ''a1''),
      unpack_archive = (\<lambda>archive target. write_file (path_join2 target ''pipeline.pb'') []),
      project_base_directory = ''/fate'',
      strip_base_directory = drop 5\<rparr>"

definition example_fs :: fs where
  "example_fs =
     \<lparr>nodes = [[''tmp''] \<mapsto> Dir,
               [''tmp'', ''m.zip''] \<mapsto> File ''archive'',
               [''tmp'', ''m.zip.sha1''] \<mapsto> File ''a1'',
               [''fate''] \<mapsto> Dir,
               [''fate'', ''model_local_cache''] \<mapsto> Dir],
      cwd = []\<rparr>"

definition example_cache_nodes :: "(string list \<times> node) list" where
  "example_cache_nodes =
     [([''fate''], Dir),
      ([''fate'', ''model_local_cache''], Dir),
      ([''fate'', ''model_local_cache'', ''guest-9999''], Dir),
      ([''fate'', ''model_local_cache'', ''guest-9999'', ''v1''], Dir),
      ([''fate'', ''model_local_cache'', ''guest-9999'', ''v1'', ''define''], Dir),
      ([''fate'', ''model_local_cache'', ''guest-9999'', ''v1'', ''define'', ''define_meta.yaml''],
         File ''{}'')]"

definition example_cache :: fs where
  "example_cache = \<lparr>nodes = map_of example_cache_nodes, cwd = []\<rparr>"

section \<open>Properties of the training coordinator\<close>

subsection \<open>Auxiliary facts\<close>

lemma bind_Inl: "f s = (Inl e, s') \<Longrightarrow> bind f g s = (Inl e, s')"
  by (simp add: bind_def)

lemma bind_Inr: "f s = (Inr a, s') \<Longrightarrow> bind f g s = g a s'"
  by (simp add: bind_def)


lemma reconstruct_unilateral_None:
  "inbox ev name = None \<Longrightarrow>
   reconstruct_unilateral ev t name s =
     (Inl TransferTimeout, s\<lparr>trace := trace s @ [ReconstructUnilateral name]\<rparr>)"
  by (simp add: reconstruct_unilateral_def)

subsection \<open>The review step\<close>




lemma tensor_name_0: "tensor_name ''wb'' 0 = ''wb_0''" "tensor_name ''wa'' 0 = ''wa_0''"
  by (simp_all add: tensor_name_def str_def digits.simps)



lemma review_all_guest:
  assumes "review_strategy g = ''all_review_in_guest''" "role g = GUEST"
    and "inbox gev (tensor_name ''wb'' (n_iter g)) = Some hb"
    and "inbox gev (tensor_name ''wa'' (n_iter g)) = Some ha"
    and "length hb = length (share_val gb)" and "length ha = length (share_val ga)"
  shows "review_models gev gb ga g =
     (Inr (map (decode gev) (add_shares (q_field gb) (share_val gb) hb)),
      g\<lparr>trace := trace g @ [ReconstructUnilateral (tensor_name ''wb'' (n_iter g)),
                             ReconstructUnilateral (tensor_name ''wa'' (n_iter g))],
        hosted_model_weights :=
          Some \<lparr>l = map (decode gev) (add_shares (q_field ga) (share_val ga) ha),
                lmw_fit_intercept = False\<rparr>,
        model_weights := Some \<lparr>l = map (decode gev) (add_shares (q_field gb) (share_val gb) hb),
                                lmw_fit_intercept = fit_intercept g\<rparr>\<rparr>)"
  using assms
  by (simp add: review_models_def bind_def reconstruct_unilateral_def
      set_model_weights_def)

lemma review_all_host:
  assumes "review_strategy h = ''all_review_in_guest''" "role h \<noteq> GUEST"
    and "length (share_val hb) \<le> 2"
  shows "review_models hev ha hb h =
     (Inr (replicate (length (share_val ha)) 0),
      h\<lparr>trace := trace h @ [BroadcastReconstructShare (tensor_name ''wb'' (n_iter h)) (share_val hb),
                             BroadcastReconstructShare (tensor_name ''wa'' (n_iter h)) (share_val ha)],
        model_weights := Some \<lparr>l = replicate (length (share_val ha)) 0,
                                lmw_fit_intercept = fit_intercept h\<rparr>\<rparr>)"
  using assms
  by (simp add: review_models_def bind_def broadcast_reconstruct_share_def set_model_weights_def)

lemma review_all_host_guard:
  assumes "review_strategy h = ''all_review_in_guest''" "role h \<noteq> GUEST"
    and "length (share_val hb) > 2"
  shows "review_models hev ha hb h = (Inl ValueError, h)"
  using assms by (simp add: review_models_def)

text \<open>
  C7. Under \<open>all_review_in_guest\<close>, with the guard passed and the Host's two broadcasts
  delivered, the Guest's review step returns its own reconstructed shard as the new
  weights and stores the Host's reconstructed shard as \<open>hosted_model_weights\<close>, a separate
  weights object without intercept. The Host's review step returns a vector of zeros of
  the length of its own shard: whatever shares the Host holds (of that length) and
  whatever arrives on its channel, its returned and stored weights are the same.
\<close>

theorem review_all_in_guest:
  assumes "review_strategy g = ''all_review_in_guest''" and "role g = GUEST"
    and "review_strategy h = ''all_review_in_guest''" and "role h = HOST"
    and "n_iter g = n" and "n_iter h = n"
    and "length (share_val hb) \<le> 2"
    and "inbox gev (tensor_name ''wb'' n) = Some (share_val hb)"
    and "inbox gev (tensor_name ''wa'' n) = Some (share_val ha)"
    and "length (share_val hb) = length (share_val gb)"
    and "length (share_val ha) = length (share_val ga)"
    and "length (share_val ha') = length (share_val ha)"
    and "length (share_val hb') \<le> 2"
  shows "review_models gev gb ga g =
           (Inr (map (decode gev) (add_shares (q_field gb) (share_val gb) (share_val hb))),
            g\<lparr>trace := trace g @
                  [ReconstructUnilateral (tensor_name ''wb'' n),
                   ReconstructUnilateral (tensor_name ''wa'' n)],
              hosted_model_weights :=
                Some \<lparr>l = map (decode gev) (add_shares (q_field ga) (share_val ga) (share_val ha)),
                      lmw_fit_intercept = False\<rparr>,
              model_weights :=
                Some \<lparr>l = map (decode gev) (add_shares (q_field gb) (share_val gb) (share_val hb)),
                      lmw_fit_intercept = fit_intercept g\<rparr>\<rparr>)
       \<and> review_models hev ha hb h =
           (Inr (replicate (length (share_val ha)) 0),
            h\<lparr>trace := trace h @
                  [BroadcastReconstructShare (tensor_name ''wb'' n) (share_val hb),
                   BroadcastReconstructShare (tensor_name ''wa'' n) (share_val ha)],
              model_weights :=
                Some \<lparr>l = replicate (length (share_val ha)) 0,
                      lmw_fit_intercept = fit_intercept h\<rparr>\<rparr>)
       \<and> fst (review_models hev' ha' hb' h) = fst (review_models hev ha hb h)
       \<and> model_weights (snd (review_models hev' ha' hb' h))
           = model_weights (snd (review_models hev ha hb h))"
proof -
  have g1: "review_models gev gb ga g =
           (Inr (map (decode gev) (add_shares (q_field gb) (share_val gb) (share_val hb))),
            g\<lparr>trace := trace g @
                  [ReconstructUnilateral (tensor_name ''wb'' n),
                   ReconstructUnilateral (tensor_name ''wa'' n)],
              hosted_model_weights :=
                Some \<lparr>l = map (decode gev) (add_shares (q_field ga) (share_val ga) (share_val ha)),
                      lmw_fit_intercept = False\<rparr>,
              model_weights :=
                Some \<lparr>l = map (decode gev) (add_shares (q_field gb) (share_val gb) (share_val hb)),
                      lmw_fit_intercept = fit_intercept g\<rparr>\<rparr>)"
    using review_all_guest[of g gev "share_val hb" "share_val ha" gb ga] assms by simp
  have hr: "role h \<noteq> GUEST" using assms(4) by simp
  have h1: "review_models hev ha hb h =
           (Inr (replicate (length (share_val ha)) 0),
            h\<lparr>trace := trace h @
                  [BroadcastReconstructShare (tensor_name ''wb'' n) (share_val hb),
                   BroadcastReconstructShare (tensor_name ''wa'' n) (share_val ha)],
              model_weights :=
                Some \<lparr>l = replicate (length (share_val ha)) 0,
                      lmw_fit_intercept = fit_intercept h\<rparr>\<rparr>)"
    using review_all_host[OF assms(3) hr assms(7), of hev ha] assms(6) by simp
  have h2: "review_models hev' ha' hb' h =
           (Inr (replicate (length (share_val ha)) 0),
            h\<lparr>trace := trace h @
                  [BroadcastReconstructShare (tensor_name ''wb'' n) (share_val hb'),
                   BroadcastReconstructShare (tensor_name ''wa'' n) (share_val ha')],
              model_weights :=
                Some \<lparr>l = replicate (length (share_val ha)) 0,
                      lmw_fit_intercept = fit_intercept h\<rparr>\<rparr>)"
    using review_all_host[OF assms(3) hr assms(13), of hev' ha'] assms(6) assms(12) by simp
  show ?thesis using g1 h1 h2 by simp
qed

theorem review_all_in_guest_witness:
  "review_models (example_env\<lparr>inbox := map_of [(''wb_0'', [3]), (''wa_0'', [6])]\<rparr>)
      \<lparr>share_val = [2], q_field = 7\<rparr> \<lparr>share_val = [5], q_field = 7\<rparr>
      (example_party GUEST ''all_review_in_guest'')
     = (Inr [5],
        (example_party GUEST ''all_review_in_guest'')
          \<lparr>trace := [ReconstructUnilateral ''wb_0'', ReconstructUnilateral ''wa_0''],
           hosted_model_weights := Some \<lparr>l = [4], lmw_fit_intercept = False\<rparr>,
           model_weights := Some \<lparr>l = [5], lmw_fit_intercept = True\<rparr>\<rparr>)
   \<and> review_models example_env \<lparr>share_val = [6], q_field = 7\<rparr> \<lparr>share_val = [3], q_field = 7\<rparr>
      (example_party HOST ''all_review_in_guest'')
     = (Inr [0],
        (example_party HOST ''all_review_in_guest'')
          \<lparr>trace := [BroadcastReconstructShare ''wb_0'' [3], BroadcastReconstructShare ''wa_0'' [6]],
           model_weights := Some \<lparr>l = [0], lmw_fit_intercept = True\<rparr>\<rparr>)
   \<and> fst (review_models example_env \<lparr>share_val = [1], q_field = 7\<rparr> \<lparr>share_val = [4, 4], q_field = 7\<rparr>
      (example_party HOST ''all_review_in_guest'')) = Inr [0]"
  using review_all_in_guest[of "example_party GUEST ''all_review_in_guest''"
      "example_party HOST ''all_review_in_guest''" 0 "\<lparr>share_val = [3], q_field = 7\<rparr>"
      "example_env\<lparr>inbox := map_of [(''wb_0'', [3]), (''wa_0'', [6])]\<rparr>"
      "\<lparr>share_val = [6], q_field = 7\<rparr>" "\<lparr>share_val = [2], q_field = 7\<rparr>"
      "\<lparr>share_val = [5], q_field = 7\<rparr>" "\<lparr>share_val = [1], q_field = 7\<rparr>"
      "\<lparr>share_val = [4, 4], q_field = 7\<rparr>" example_env example_env]
  by (simp add: example_party_def example_env_def tensor_name_0 add_shares_def)

text \<open>
  C2, as the code has it. Under \<open>all_review_in_guest\<close> the guard is on the first dimension
  of the Host's remote share, that is, on the length of the Guest's weight vector (the
  message of the error says "Too many features in Guest"): when it exceeds 2, the review
  step of the Host (of any party but the Guest) raises \<open>ValueError\<close> and leaves the state as
  it was, so no share has been broadcast and nothing reconstructed by it. The Guest, to
  whom nothing was sent, is still waiting for the first share and has reconstructed no
  weights.
\<close>

theorem review_guard_on_remote_share:
  assumes "review_strategy h = ''all_review_in_guest''" and "role h \<noteq> GUEST"
    and "length (share_val hb) > 2"
    and "review_strategy g = ''all_review_in_guest''" and "role g = GUEST"
    and "inbox gev (tensor_name ''wb'' (n_iter g)) = None"
  shows "review_models hev ha hb h = (Inl ValueError, h)
       \<and> review_models gev gb ga g =
           (Inl TransferTimeout,
            g\<lparr>trace := trace g @ [ReconstructUnilateral (tensor_name ''wb'' (n_iter g))]\<rparr>)"
  using assms
  by (simp add: review_models_def bind_def reconstruct_unilateral_def)

theorem review_guard_on_remote_share_witness:
  "review_models example_env \<lparr>share_val = [1], q_field = 7\<rparr> \<lparr>share_val = [4, 5, 6], q_field = 7\<rparr>
        (example_party HOST ''all_review_in_guest'')
      = (Inl ValueError, example_party HOST ''all_review_in_guest'')
   \<and> review_models (example_env\<lparr>inbox := Map.empty\<rparr>) \<lparr>share_val = [4, 5, 6], q_field = 7\<rparr>
        \<lparr>share_val = [1], q_field = 7\<rparr> (example_party GUEST ''all_review_in_guest'')
      = (Inl TransferTimeout,
         (example_party GUEST ''all_review_in_guest'')\<lparr>trace := [ReconstructUnilateral ''wb_0'']\<rparr>)"
  using review_guard_on_remote_share[of "example_party HOST ''all_review_in_guest''"
      "\<lparr>share_val = [4, 5, 6], q_field = 7\<rparr>" "example_party GUEST ''all_review_in_guest''"
      "example_env\<lparr>inbox := Map.empty\<rparr>" example_env "\<lparr>share_val = [1], q_field = 7\<rparr>"
      "\<lparr>share_val = [4, 5, 6], q_field = 7\<rparr>" "\<lparr>share_val = [1], q_field = 7\<rparr>"]
  by (simp add: example_party_def example_env_def tensor_name_0)

text \<open>
  C2 as stated fails: a Host with three features of its own, whose remote
  share has one element, passes the guard, broadcasts both shares and returns zeros.
\<close>

theorem review_guard_counterexample:
  "review_strategy (example_party HOST ''all_review_in_guest'') = ''all_review_in_guest''
   \<and> role (example_party HOST ''all_review_in_guest'') = HOST
   \<and> length (share_val \<lparr>share_val = [1, 2, 3], q_field = 7\<rparr>) > 2
   \<and> review_models example_env \<lparr>share_val = [1, 2, 3], q_field = 7\<rparr> \<lparr>share_val = [4], q_field = 7\<rparr>
        (example_party HOST ''all_review_in_guest'')
      = (Inr [0, 0, 0],
         (example_party HOST ''all_review_in_guest'')
           \<lparr>trace := [BroadcastReconstructShare ''wb_0'' [4],
                       BroadcastReconstructShare ''wa_0'' [1, 2, 3]],
            model_weights := Some \<lparr>l = [0, 0, 0], lmw_fit_intercept = True\<rparr>\<rparr>)"
  by (simp add: review_models_def bind_def broadcast_reconstruct_share_def set_model_weights_def
      example_party_def tensor_name_0 numeral_3_eq_3)

subsection \<open>Traces of the training loop\<close>

lemma review_models_trace:
  "review_models ev a b s = (r, s') \<Longrightarrow> \<exists>d. trace s' = trace s @ d \<and> list_all is_disclosure d"
  unfolding review_models_def bind_def reconstruct_unilateral_def broadcast_reconstruct_share_def
    set_model_weights_def Let_def
  by (auto split: if_splits option.splits)

lemma batch_step_trace:
  assumes "batch_step ev i b ws wr s = (r, s')"
  shows "\<exists>t. trace s' = trace s @ t \<and> batch_trace ev (role s) (labels s) t"
proof -
  let ?sfx = "[SInt (n_iter s), SInt (int i)]"
  let ?s1 = "s\<lparr>trace := trace s @ [CalPrediction ?sfx]\<rparr>"
  show ?thesis
  proof (cases "cal_prediction ev (role s) ws wr b ?sfx")
    case (Inl e)
    then have "s' = ?s1" using assms
      by (simp add: batch_step_def bind_def cal_prediction_call_def Let_def)
    then show ?thesis using failed_batch[of ev "role s" "labels s" ?sfx] by auto
  next
    case (Inr y)
    show ?thesis
    proof (cases "role s = GUEST")
      case True
      show ?thesis
      proof (cases "labels s")
        case None
        then have "s' = ?s1" using assms Inr True
          by (simp add: batch_step_def bind_def cal_prediction_call_def Let_def)
        then show ?thesis using failed_batch[of ev "role s" "labels s" ?sfx] by auto
      next
        case (Some lb)
        let ?err = "join (table_val y) lb (\<lambda>a b. a - b)"
        let ?s3 = "s\<lparr>trace := trace s @ [CalPrediction ?sfx, PlainError ?err,
                      ComputeGradient ?sfx (from_value ev ?err)]\<rparr>"
        show ?thesis
        proof (cases "compute_gradient ev GUEST wr ws (from_value ev ?err) b ?sfx")
          case (Inl e)
          then have "s' = ?s3" using assms Inr True Some
            by (simp add: batch_step_def bind_def cal_prediction_call_def
                compute_gradient_call_def Let_def)
          then show ?thesis
            using guest_batch[of "role s" "labels s" lb ev ws wr b ?sfx y "[]"] True Some Inr
            by auto
        next
          case g: (Inr p)
          obtain wr' ws' where p: "p = (wr', ws')" by (cases p)
          obtain r2 s4 where rv: "review_models ev ws' wr' ?s3 = (r2, s4)"
            by (cases "review_models ev ws' wr' ?s3")
          from review_models_trace[OF rv] obtain d where
            d: "trace s4 = trace ?s3 @ d" "list_all is_disclosure d" by auto
          have "trace s' = trace s4" using assms Inr True Some g p rv
            by (auto simp: batch_step_def bind_def cal_prediction_call_def
                compute_gradient_call_def Let_def split: sum.splits)
          then have "trace s' = trace s @ ([CalPrediction ?sfx, PlainError ?err,
                      ComputeGradient ?sfx (from_value ev ?err)] @ d)" using d by simp
          then show ?thesis
            using guest_batch[of "role s" "labels s" lb ev ws wr b ?sfx y d] True Some Inr d(2)
            by blast
        qed
      qed
    next
      case False
      let ?s3 = "s\<lparr>trace := trace s @ [CalPrediction ?sfx, ComputeGradient ?sfx y]\<rparr>"
      show ?thesis
      proof (cases "compute_gradient ev (role s) ws wr y b ?sfx")
        case (Inl e)
        then have "s' = ?s3" using assms Inr False
          by (simp add: batch_step_def bind_def cal_prediction_call_def
              compute_gradient_call_def Let_def)
        then show ?thesis
          using other_batch[of "role s" ev ws wr b ?sfx y "[]" "labels s"] False Inr
          by auto
      next
        case g: (Inr p)
        obtain ws' wr' where p: "p = (ws', wr')" by (cases p)
        obtain r2 s4 where rv: "review_models ev ws' wr' ?s3 = (r2, s4)"
          by (cases "review_models ev ws' wr' ?s3")
        from review_models_trace[OF rv] obtain d where
          d: "trace s4 = trace ?s3 @ d" "list_all is_disclosure d" by auto
        have "trace s' = trace s4" using assms Inr False g p rv
          by (auto simp: batch_step_def bind_def cal_prediction_call_def
              compute_gradient_call_def Let_def split: sum.splits)
        then have "trace s' = trace s @ ([CalPrediction ?sfx, ComputeGradient ?sfx y] @ d)"
          using d by simp
        then show ?thesis
          using other_batch[of "role s" ev ws wr b ?sfx y d "labels s"] False Inr d(2)
          by blast
      qed
    qed
  qed
qed

lemma checks_Nil: "checks [] = []"
  by (simp add: checks_def List.map_filter_simps)

lemma checks_Cons:
  "checks (e # t) = (case e of CheckConverge suffix c \<Rightarrow> (suffix, c) # checks t | _ \<Rightarrow> checks t)"
  by (simp add: checks_def List.map_filter_simps split: event.splits)

lemma checks_append: "checks (a @ b) = checks a @ checks b"
  by (induction a) (simp_all add: checks_Nil checks_Cons split: event.splits)

lemma checks_disclosure: "list_all is_disclosure d \<Longrightarrow> checks d = []"
  by (induction d) (auto simp: checks_Nil checks_Cons split: event.splits)

lemma checks_batch: "batch_trace ev r lab b \<Longrightarrow> checks b = []"
  by (induction rule: batch_trace.induct)
     (simp_all add: checks_Nil checks_Cons checks_disclosure)

lemma checks_batches: "batches_trace ev r lab t \<Longrightarrow> checks t = []"
  by (induction rule: batches_trace.induct) (simp_all add: checks_Nil checks_append checks_batch)

lemma checks_single: "checks [CheckConverge suffix c] = [(suffix, c)]"
  by (simp add: checks_Nil checks_Cons)

lemma run_trace_append: "run_trace ev r lab a \<Longrightarrow> run_trace ev r lab b \<Longrightarrow> run_trace ev r lab (a @ b)"
proof (induction rule: run_trace.induct)
  case run_nil
  then show ?case by simp
next
  case (run_batch b t)
  then show ?case using run_trace.run_batch[of ev r lab b "t @ _"] by simp
next
  case (run_check t suffix c)
  then show ?case using run_trace.run_check by simp
qed

lemma batches_run_trace: "batches_trace ev r lab t \<Longrightarrow> run_trace ev r lab t"
  by (induction rule: batches_trace.induct) (auto intro: run_trace.intros)

lemma batches_trace_append:
  "batches_trace ev r lab a \<Longrightarrow> batches_trace ev r lab b \<Longrightarrow> batches_trace ev r lab (a @ b)"
proof (induction rule: batches_trace.induct)
  case batches_nil
  then show ?case by simp
next
  case (batches_cons b t)
  then show ?case using batches_trace.batches_cons[of ev r lab b "t @ _"] by simp
qed

lemma batch_loop_trace:
  "batch_loop ev bs loc s = (r, s') \<Longrightarrow>
   \<exists>t. trace s' = trace s @ t \<and> batches_trace ev (role s) (labels s) t"
proof (induction ev bs loc s rule: batch_loop.induct)
  case (1 ev loc s)
  then show ?case by (auto intro: batches_nil)
next
  case (2 ev batch_idx batch_data rest w_self w_remote new_w s)
  obtain r1 s1 where st: "batch_step ev batch_idx batch_data w_self w_remote s = (r1, s1)"
    by (cases "batch_step ev batch_idx batch_data w_self w_remote s")
  from batch_step_trace[OF st] obtain b where
    b: "trace s1 = trace s @ b" "batch_trace ev (role s) (labels s) b" by auto
  have f1: "frame s s1" using frame_batch_step[of s ev batch_idx batch_data w_self w_remote] st by simp
  show ?case
  proof (cases r1)
    case (Inl e)
    then have "s' = s1" using "2.prems" st by simp
    then show ?thesis using b batches_cons[OF b(2) batches_nil] by auto
  next
    case (Inr x)
    obtain a1 a2 a3 where x: "x = (a1, a2, a3)" by (cases x)
    have "batch_loop ev rest (a1, a2, Some a3) s1 = (r, s')"
      using "2.prems" st Inr x by simp
    from "2.IH"[OF st[symmetric] Inr x[symmetric] refl this]
    obtain t where t: "trace s' = trace s1 @ t" "batches_trace ev (role s1) (labels s1) t"
      by auto
    have "batches_trace ev (role s) (labels s) t" using t(2) f1 by (simp add: frame_def)
    then have "batches_trace ev (role s) (labels s) (b @ t)" using b(2) by (rule batches_cons[rotated])
    then show ?thesis using t(1) b(1) by auto
  qed
qed

lemma iteration_trace:
  assumes "iteration ev bs loc last_models s = (r, s')"
  shows "\<exists>t. batches_trace ev (role s) (labels s) t \<and>
     (case r of
        Inl e \<Rightarrow> trace s' = trace s @ t
      | Inr _ \<Rightarrow> trace s' = trace s @ t @ [CheckConverge [SInt (n_iter s)] (is_converged s')])"
proof -
  obtain r1 s1 where b: "batch_loop ev (List.enumerate 0 bs) loc s = (r1, s1)"
    by (cases "batch_loop ev (List.enumerate 0 bs) loc s")
  from batch_loop_trace[OF b] obtain t where
    t: "trace s1 = trace s @ t" "batches_trace ev (role s) (labels s) t" by auto
  have f1: "n_iter s1 = n_iter s" using frame_batch_loop[OF b] by (simp add: frame_def)
  have "case r of
        Inl e \<Rightarrow> trace s' = trace s @ t
      | Inr _ \<Rightarrow> trace s' = trace s @ t @ [CheckConverge [SInt (n_iter s)] (is_converged s')]"
    using assms b t(1) f1 unfolding iteration_def
    by (auto simp: Let_def split: sum.splits option.splits prod.splits)
  then show ?thesis using t(2) by blast
qed

lemma loop_outcome_step:
  assumes "loop_outcome (n + 1) cap r s' t2 k" and "n + 1 \<le> k" and "checks t1 = [([SInt n], False)]"
  shows "loop_outcome n cap r s' (t1 @ t2) k"
proof -
  have up: "[n..k - 1] = n # [n + 1..k - 1]" using assms(2) by (simp add: upto_rec1)
  show ?thesis
  proof (cases r)
    case (Inl e)
    then show ?thesis using assms up by (simp add: loop_outcome_def checks_append)
  next
    case (Inr u)
    then show ?thesis using assms up by (simp add: loop_outcome_def checks_append)
  qed
qed

lemma fit_loop_trace:
  "fit_loop ev bs loc last_models s = (r, s') \<Longrightarrow>
   \<exists>t. trace s' = trace s @ t \<and> run_trace ev (role s) (labels s) t \<and> max_iter s' = max_iter s \<and>
     (if n_iter s < max_iter s then
        \<exists>k. n_iter s \<le> k \<and> k < max_iter s \<and> loop_outcome (n_iter s) (max_iter s) r s' t k
      else r = Inr () \<and> s' = s)"
proof (induction ev bs loc last_models s arbitrary: r s' rule: fit_loop.induct)
  case (1 ev bs loc last_models s)
  show ?case
  proof (cases "n_iter s < max_iter s")
    case False
    then have "r = Inr () \<and> s' = s" using "1.prems" by (auto simp: fit_loop.simps)
    then show ?thesis using False by (auto intro: run_nil)
  next
    case True
    obtain r1 s1 where it: "iteration ev bs loc last_models s = (r1, s1)"
      by (cases "iteration ev bs loc last_models s")
    have f1: "frame s s1" using frame_iteration[OF it] .
    have fr: "role s1 = role s" "labels s1 = labels s" "n_iter s1 = n_iter s"
      "max_iter s1 = max_iter s"
      using f1 by (simp_all add: frame_def)
    from iteration_trace[OF it] obtain t1 where
      t1: "batches_trace ev (role s) (labels s) t1"
        "case r1 of Inl e \<Rightarrow> trace s1 = trace s @ t1
         | Inr _ \<Rightarrow> trace s1 = trace s @ t1 @ [CheckConverge [SInt (n_iter s)] (is_converged s1)]"
      by auto
    show ?thesis
    proof (cases r1)
      case (Inl e)
      then have rs: "r = Inl e" "s' = s1" using "1.prems" True it by (auto simp: fit_loop.simps)
      have tr: "trace s' = trace s @ t1" using t1(2) Inl rs by simp
      have "loop_outcome (n_iter s) (max_iter s) r s' t1 (n_iter s)"
        using checks_batches[OF t1(1)] fr rs by (simp add: loop_outcome_def)
      then have "\<exists>k. n_iter s \<le> k \<and> k < max_iter s \<and> loop_outcome (n_iter s) (max_iter s) r s' t1 k"
        using True by (intro exI[of _ "n_iter s"]) simp
      then show ?thesis using True tr rs fr batches_run_trace[OF t1(1)]
        by (intro exI[of _ t1]) simp
    next
      case (Inr x)
      obtain loc' last' where x: "x = (loc', last')" by (cases x)
      let ?c = "CheckConverge [SInt (n_iter s)] (is_converged s1)"
      have tr1: "trace s1 = trace s @ t1 @ [?c]" using t1(2) Inr by simp
      have rt1: "run_trace ev (role s) (labels s) (t1 @ [?c])"
        using run_trace_append[OF batches_run_trace[OF t1(1)], of "[?c]"]
          run_check[OF run_nil, of ev "role s" "labels s"] by simp
      have ch1: "checks (t1 @ [?c]) = [([SInt (n_iter s)], is_converged s1)]"
        by (simp add: checks_append checks_batches[OF t1(1)] checks_single)
      show ?thesis
      proof (cases "is_converged s1")
        case c: True
        then have rs: "r = Inr ()" "s' = s1" using "1.prems" True it Inr x
          by (auto simp: fit_loop.simps)
        have "loop_outcome (n_iter s) (max_iter s) r s' (t1 @ [?c]) (n_iter s)"
          using ch1 c rs fr by (simp add: loop_outcome_def)
        then have "\<exists>k. n_iter s \<le> k \<and> k < max_iter s \<and>
            loop_outcome (n_iter s) (max_iter s) r s' (t1 @ [?c]) k"
          using True by (intro exI[of _ "n_iter s"]) simp
        then show ?thesis using True rs tr1 rt1 fr
          by (intro exI[of _ "t1 @ [?c]"]) simp
      next
        case c: False
        let ?s2 = "s1\<lparr>n_iter := n_iter s1 + 1\<rparr>"
        have rec: "fit_loop ev bs loc' last' ?s2 = (r, s')"
          using "1.prems" True it Inr x c by (auto simp: fit_loop.simps)
        have n2: "n_iter ?s2 = n_iter s + 1" and m2: "max_iter ?s2 = max_iter s"
          and r2: "role ?s2 = role s" and l2: "labels ?s2 = labels s"
          using fr by simp_all
        from "1.IH"[OF True it[symmetric] Inr x[symmetric] c rec]
        obtain t2 where t2: "trace s' = trace ?s2 @ t2" "run_trace ev (role s) (labels s) t2"
          "max_iter s' = max_iter s"
          and rest: "if n_iter s + 1 < max_iter s then
            \<exists>k. n_iter s + 1 \<le> k \<and> k < max_iter s \<and>
                loop_outcome (n_iter s + 1) (max_iter s) r s' t2 k
            else r = Inr () \<and> s' = ?s2"
          unfolding n2 m2 r2 l2 by blast
        have tr: "trace s' = trace s @ ((t1 @ [?c]) @ t2)" using t2(1) tr1 by simp
        have rt: "run_trace ev (role s) (labels s) ((t1 @ [?c]) @ t2)"
          using run_trace_append[OF rt1 t2(2)] .
        have chF: "checks (t1 @ [?c]) = [([SInt (n_iter s)], False)]" using ch1 c by simp
        have "\<exists>k. n_iter s \<le> k \<and> k < max_iter s \<and>
            loop_outcome (n_iter s) (max_iter s) r s' ((t1 @ [?c]) @ t2) k"
        proof (cases "n_iter s + 1 < max_iter s")
          case False
          then have e: "r = Inr ()" "s' = ?s2" using rest by simp_all
          then have e3: "t2 = []" using t2(1) by simp
          have k: "n_iter s = max_iter s - 1" using True False by simp
          have "loop_outcome (n_iter s) (max_iter s) r s' ((t1 @ [?c]) @ t2) (n_iter s)"
            using chF e e3 c fr k by (simp add: loop_outcome_def)
          then show ?thesis using True by (intro exI[of _ "n_iter s"]) simp
        next
          case lt: True
          then obtain k where k: "n_iter s + 1 \<le> k" "k < max_iter s"
            "loop_outcome (n_iter s + 1) (max_iter s) r s' t2 k"
            using rest by auto
          have "loop_outcome (n_iter s) (max_iter s) r s' ((t1 @ [?c]) @ t2) k"
            using loop_outcome_step[OF k(3) k(1) chF] .
          then show ?thesis using k by (intro exI[of _ k]) simp
        qed
        then show ?thesis using True tr rt t2(3)
          by (intro exI[of _ "(t1 @ [?c]) @ t2"]) simp
      qed
    qed
  qed
qed

lemma tensor_name_1: "tensor_name ''wb'' 1 = ''wb_1''" "tensor_name ''wa'' 1 = ''wa_1''"
  by (simp_all add: tensor_name_def str_def digits.simps)

lemma tensor_name_m1: "tensor_name ''wb'' (- 1) = ''wb_-1''" "tensor_name ''wa'' (- 1) = ''wa_-1''"
  by (simp_all add: tensor_name_def str_def digits.simps)

lemma enumerate_1: "List.enumerate 0 [x] = [(0, x)]"
  by (simp add: enumerate_eq_zip)

lemma enumerate_2: "List.enumerate 0 [x, y] = [(0, x), (1, y)]"
  by (simp add: enumerate_eq_zip upt_rec)

lemmas eval_simps = bind_def review_models_def reconstruct_unilateral_def
  broadcast_reconstruct_share_def set_model_weights_def batch_step_def
  cal_prediction_call_def compute_gradient_call_def iteration_def
  example_env_def example_open_env_def example_party_def example_shares_def example_batch_def
  tensor_name_0 tensor_name_1 tensor_name_m1 enumerate_1 enumerate_2 add_shares_def Let_def
  share_init_model_def from_source_call_def fit_binary_def join_def List.map_filter_simps

lemma batch_trace_no_plain_error:
  "batch_trace ev r lab b \<Longrightarrow> r \<noteq> GUEST \<Longrightarrow> PlainError err \<notin> set b"
proof (induction rule: batch_trace.induct)
  case (other_batch w_self w_remote features suffix y d)
  have "PlainError err \<notin> set d" using other_batch(3)
    by (induction d) auto
  then show ?case by simp
qed simp_all

lemma run_trace_no_plain_error:
  "run_trace ev r lab t \<Longrightarrow> r \<noteq> GUEST \<Longrightarrow> PlainError err \<notin> set t"
  by (induction rule: run_trace.induct) (auto dest: batch_trace_no_plain_error)

lemma disclosure_no_gradient: "list_all is_disclosure d \<Longrightarrow> ComputeGradient suffix e \<notin> set d"
  by (induction d) auto

lemma batch_trace_gradient_guest:
  assumes "batch_trace ev r lab b" and "ComputeGradient suffix e \<in> set b" and "r = GUEST"
  shows "\<exists>lb y w_self w_remote features. lab = Some lb
             \<and> cal_prediction ev r w_self w_remote features suffix = Inr y
             \<and> e = from_value ev (join (table_val y) lb (\<lambda>a b. a - b))
             \<and> PlainError (join (table_val y) lb (\<lambda>a b. a - b)) \<in> set b"
  using assms
proof (induction rule: batch_trace.induct)
  case (guest_batch lb w_self w_remote features suffix' y d)
  have "ComputeGradient suffix e \<notin> set d" using guest_batch(4) by (rule disclosure_no_gradient)
  then have "suffix = suffix'" "e = from_value ev (join (table_val y) lb (\<lambda>a b. a - b))"
    using guest_batch(5) by auto
  then show ?case using guest_batch(1,2,3) by auto
qed simp_all

lemma batch_trace_gradient_other:
  assumes "batch_trace ev r lab b" and "ComputeGradient suffix e \<in> set b" and "r \<noteq> GUEST"
  shows "\<exists>w_self w_remote features. cal_prediction ev r w_self w_remote features suffix = Inr e"
  using assms
proof (induction rule: batch_trace.induct)
  case (other_batch w_self w_remote features suffix' y d)
  have "ComputeGradient suffix e \<notin> set d" using other_batch(3) by (rule disclosure_no_gradient)
  then have "suffix = suffix'" "e = y" using other_batch(4) by auto
  then show ?case using other_batch(1,2) by auto
qed simp_all

lemma run_trace_gradient_guest:
  assumes "run_trace ev r lab t" and "ComputeGradient suffix e \<in> set t" and "r = GUEST"
  shows "\<exists>lb y w_self w_remote features. lab = Some lb
             \<and> cal_prediction ev r w_self w_remote features suffix = Inr y
             \<and> e = from_value ev (join (table_val y) lb (\<lambda>a b. a - b))
             \<and> PlainError (join (table_val y) lb (\<lambda>a b. a - b)) \<in> set t"
  using assms
proof (induction rule: run_trace.induct)
  case run_nil
  then show ?case by simp
next
  case (run_batch b t)
  show ?case
  proof (cases "ComputeGradient suffix e \<in> set b")
    case True
    from batch_trace_gradient_guest[OF run_batch(1) True run_batch(5)] show ?thesis
      by (simp only: set_append Un_iff) blast
  next
    case False
    then have "ComputeGradient suffix e \<in> set t" using run_batch(4) by simp
    from run_batch(3)[OF this run_batch(5)] show ?thesis
      by (simp only: set_append Un_iff) blast
  qed
next
  case (run_check t suffix' c)
  then have "ComputeGradient suffix e \<in> set t" by simp
  from run_check(2)[OF this run_check(4)] show ?case
    by (simp only: set_simps insert_iff) blast
qed

lemma run_trace_gradient_other:
  assumes "run_trace ev r lab t" and "ComputeGradient suffix e \<in> set t" and "r \<noteq> GUEST"
  shows "\<exists>w_self w_remote features. cal_prediction ev r w_self w_remote features suffix = Inr e"
  using assms
proof (induction rule: run_trace.induct)
  case run_nil
  then show ?case by simp
next
  case (run_batch b t)
  show ?case
  proof (cases "ComputeGradient suffix e \<in> set b")
    case True
    from batch_trace_gradient_other[OF run_batch(1) True run_batch(5)] show ?thesis .
  next
    case False
    then have "ComputeGradient suffix e \<in> set t" using run_batch(4) by simp
    from run_batch(3)[OF this run_batch(5)] show ?thesis .
  qed
next
  case (run_check t suffix' c)
  then have "ComputeGradient suffix e \<in> set t" by simp
  from run_check(2)[OF this run_check(4)] show ?case .
qed

lemma share_init_model_trace:
  "share_init_model ev w n s = (r, s') \<Longrightarrow>
   frame s s' \<and> (\<exists>t0. trace s' = trace s @ t0 \<and> list_all is_from_source t0)"
  unfolding share_init_model_def from_source_call_def bind_def frame_def
  by (auto split: if_splits sum.splits)

subsection \<open>The training loop\<close>

text \<open>
  C5. The training loop returns for every input: \<open>fit_loop\<close> is a total function, by a
  termination proof on the distance of the counter from the cap. Started under the cap, it
  ends in some iteration \<open>k\<close> under the cap: all convergence checks before that of \<open>k\<close>
  were negative; on a normal return the check of \<open>k\<close> is the last event of the run (no
  prediction, gradient or review step follows it) and either it reported convergence and
  the counter is \<open>k\<close>, or it did not, \<open>k\<close> is the last iteration under the cap and the counter
  has reached the cap. An exception of a collaborator ends the loop in the iteration where
  it is raised. Started at or over the cap, the loop does nothing.
\<close>

theorem fit_loop_stops:
  "\<exists>r s' t. fit_loop ev encoded_batch_data loc last_models s = (r, s')
     \<and> trace s' = trace s @ t \<and> max_iter s' = max_iter s
     \<and> (if n_iter s < max_iter s then
          \<exists>k. n_iter s \<le> k \<and> k < max_iter s \<and>
            (case r of
               Inr _ \<Rightarrow>
                 checks t = map (\<lambda>i. ([SInt i], False)) [n_iter s..k - 1] @ [([SInt k], is_converged s')]
                 \<and> t \<noteq> [] \<and> last t = CheckConverge [SInt k] (is_converged s')
                 \<and> (if is_converged s' then n_iter s' = k
                     else k = max_iter s - 1 \<and> n_iter s' = max_iter s)
             | Inl e \<Rightarrow> checks t = map (\<lambda>i. ([SInt i], False)) [n_iter s..k - 1] \<and> n_iter s' = k)
        else r = Inr () \<and> s' = s)"
proof -
  obtain r s' where run: "fit_loop ev encoded_batch_data loc last_models s = (r, s')"
    by (cases "fit_loop ev encoded_batch_data loc last_models s")
  from fit_loop_trace[OF run] obtain t where
    "trace s' = trace s @ t" "max_iter s' = max_iter s"
    "if n_iter s < max_iter s then
        \<exists>k. n_iter s \<le> k \<and> k < max_iter s \<and> loop_outcome (n_iter s) (max_iter s) r s' t k
      else r = Inr () \<and> s' = s"
    by blast
  then show ?thesis using run unfolding loop_outcome_def by blast
qed

theorem fit_loop_stops_witness:
  "fit_loop example_open_env [example_batch] example_shares ([0], None)
      ((example_party HOST ''respectively'')\<lparr>max_iter := 2\<rparr>)
     = (Inr (), (example_party HOST ''respectively'')
         \<lparr>max_iter := 2, n_iter := 2,
          model_weights := Some \<lparr>l = [0], lmw_fit_intercept = True\<rparr>,
          trace := [CalPrediction [SInt 0, SInt 0],
                    ComputeGradient [SInt 0, SInt 0] example_batch,
                    BroadcastReconstructShare ''wb_0'' [4], ReconstructUnilateral ''wa_0'',
                    CheckConverge [SInt 0] False,
                    CalPrediction [SInt 1, SInt 0],
                    ComputeGradient [SInt 1, SInt 0] example_batch,
                    BroadcastReconstructShare ''wb_1'' [4], ReconstructUnilateral ''wa_1'',
                    CheckConverge [SInt 1] False]\<rparr>)
   \<and> fit_loop (example_open_env\<lparr>check_converge := (\<lambda>last_models new_w suffix. Inr True)\<rparr>)
        [example_batch] example_shares ([0], None)
        ((example_party HOST ''respectively'')\<lparr>max_iter := 2\<rparr>)
     = (Inr (), (example_party HOST ''respectively'')
         \<lparr>max_iter := 2, is_converged := True,
          model_weights := Some \<lparr>l = [0], lmw_fit_intercept = True\<rparr>,
          trace := [CalPrediction [SInt 0, SInt 0],
                    ComputeGradient [SInt 0, SInt 0] example_batch,
                    BroadcastReconstructShare ''wb_0'' [4], ReconstructUnilateral ''wa_0'',
                    CheckConverge [SInt 0] True]\<rparr>)"
  using fit_loop_stops[of example_open_env "[example_batch]" example_shares "([0], None)"
      "(example_party HOST ''respectively'')\<lparr>max_iter := 2\<rparr>"]
  by (simp add: fit_loop.simps eval_simps)

text \<open>
  C4. In every run of \<open>fit_binary\<close> the events after those of \<open>share_init_model\<close> follow
  the grammar \<open>run_trace\<close>. So at the Guest every gradient step receives \<open>from_value\<close> of a
  plaintext error that is a prediction's values minus the labels and that was computed
  before it; at any other role every gradient step receives a prediction as
  \<open>cal_prediction\<close> returned it, and no plaintext error occurs in the whole run.
\<close>

theorem plaintext_error_only_at_guest:
  "\<exists>r s' t0 t. fit_binary ev w data_labels encoded_batch_data s = (r, s')
     \<and> trace s' = trace s @ t0 @ t \<and> list_all is_from_source t0
     \<and> run_trace ev (role s) (if role s = GUEST then Some data_labels else labels s) t
     \<and> (role s = GUEST \<longrightarrow>
          (\<forall>suffix e. ComputeGradient suffix e \<in> set t \<longrightarrow>
             (\<exists>y w_self w_remote features.
                cal_prediction ev GUEST w_self w_remote features suffix = Inr y
                \<and> e = from_value ev (join (table_val y) data_labels (\<lambda>a b. a - b))
                \<and> PlainError (join (table_val y) data_labels (\<lambda>a b. a - b)) \<in> set t)))
     \<and> (role s \<noteq> GUEST \<longrightarrow>
          (\<forall>err. PlainError err \<notin> set (t0 @ t))
          \<and> (\<forall>suffix e. ComputeGradient suffix e \<in> set t \<longrightarrow>
               (\<exists>w_self w_remote features.
                  cal_prediction ev (role s) w_self w_remote features suffix = Inr e)))"
proof -
  let ?lab = "if role s = GUEST then Some data_labels else labels s"
  let ?s0 = "if role s = GUEST then s\<lparr>labels := Some data_labels\<rparr> else s"
  have s0: "role ?s0 = role s" "labels ?s0 = ?lab" "trace ?s0 = trace s" by simp_all
  obtain r1 s1 where sh: "share_init_model ev w (- 1) ?s0 = (r1, s1)"
    by (cases "share_init_model ev w (- 1) ?s0")
  from share_init_model_trace[OF sh] obtain t0 where
    f1: "frame ?s0 s1" and t0: "trace s1 = trace ?s0 @ t0" "list_all is_from_source t0"
    by blast
  have npe0: "\<And>err. PlainError err \<notin> set t0" using t0(2) by (induction t0) auto
  obtain r s' where run: "fit_binary ev w data_labels encoded_batch_data s = (r, s')"
    by (cases "fit_binary ev w data_labels encoded_batch_data s")
  have "\<exists>t. trace s' = trace s1 @ t \<and> run_trace ev (role s) ?lab t"
  proof (cases r1)
    case (Inl e)
    then have "s' = s1" using run sh by (simp add: fit_binary_def bind_def Let_def)
    then show ?thesis by (auto intro: run_nil)
  next
    case (Inr p)
    obtain w_self w_remote where p: "p = (w_self, w_remote)" by (cases p)
    have "fit_loop ev encoded_batch_data (w_self, w_remote, None) (w, hosted_model_weights s) s1 = (r, s')"
      using run sh Inr p by (simp add: fit_binary_def bind_def Let_def)
    from fit_loop_trace[OF this] obtain t where
      "trace s' = trace s1 @ t" "run_trace ev (role s1) (labels s1) t" by blast
    moreover have "role s1 = role s" "labels s1 = ?lab"
      using f1 s0 unfolding frame_def by (metis, metis)
    ultimately show ?thesis by auto
  qed
  then obtain t where t: "trace s' = trace s1 @ t" "run_trace ev (role s) ?lab t" by blast
  have tr: "trace s' = trace s @ t0 @ t" using t(1) t0(1) s0(3) by simp
  have g: "role s = GUEST \<longrightarrow>
          (\<forall>suffix e. ComputeGradient suffix e \<in> set t \<longrightarrow>
             (\<exists>y w_self w_remote features.
                cal_prediction ev GUEST w_self w_remote features suffix = Inr y
                \<and> e = from_value ev (join (table_val y) data_labels (\<lambda>a b. a - b))
                \<and> PlainError (join (table_val y) data_labels (\<lambda>a b. a - b)) \<in> set t))"
  proof (intro impI allI)
    fix suffix e
    assume a: "role s = GUEST" "ComputeGradient suffix e \<in> set t"
    have "run_trace ev (role s) (Some data_labels) t" using t(2) a(1) by simp
    from run_trace_gradient_guest[OF this a(2) a(1)] a(1)
    show "\<exists>y w_self w_remote features.
                cal_prediction ev GUEST w_self w_remote features suffix = Inr y
                \<and> e = from_value ev (join (table_val y) data_labels (\<lambda>a b. a - b))
                \<and> PlainError (join (table_val y) data_labels (\<lambda>a b. a - b)) \<in> set t"
      by auto
  qed
  have h: "role s \<noteq> GUEST \<longrightarrow>
          (\<forall>err. PlainError err \<notin> set (t0 @ t))
          \<and> (\<forall>suffix e. ComputeGradient suffix e \<in> set t \<longrightarrow>
               (\<exists>w_self w_remote features.
                  cal_prediction ev (role s) w_self w_remote features suffix = Inr e))"
    using run_trace_no_plain_error[OF t(2)] run_trace_gradient_other[OF t(2)] npe0
    by auto
  show ?thesis using run tr t0(2) t(2) g h by blast
qed

theorem plaintext_error_only_at_guest_witness:
  "fit_binary example_open_env [0] [(0, 1), (1, 0)] [example_batch]
      (example_party GUEST ''respectively'')
     = (Inr (), (example_party GUEST ''respectively'')
         \<lparr>n_iter := 1, labels := Some [(0, 1), (1, 0)],
          model_weights := Some \<lparr>l = [5], lmw_fit_intercept = True\<rparr>,
          trace := [FromSource ''wb_-1'', FromSource ''wa_-1'',
                    CalPrediction [SInt 0, SInt 0], PlainError [(0, 0), (1, 3)],
                    ComputeGradient [SInt 0, SInt 0] (FixedPointTensor [(0, 0), (1, 3)]),
                    ReconstructUnilateral ''wb_0'', BroadcastReconstructShare ''wa_0'' [0],
                    CheckConverge [SInt 0] False]\<rparr>)
   \<and> fit_binary example_open_env [0] [(0, 1), (1, 0)] [example_batch]
      (example_party HOST ''respectively'')
     = (Inr (), (example_party HOST ''respectively'')
         \<lparr>n_iter := 1,
          model_weights := Some \<lparr>l = [5], lmw_fit_intercept = True\<rparr>,
          trace := [FromSource ''wa_-1'', FromSource ''wb_-1'',
                    CalPrediction [SInt 0, SInt 0],
                    ComputeGradient [SInt 0, SInt 0] example_batch,
                    BroadcastReconstructShare ''wb_0'' [0], ReconstructUnilateral ''wa_0'',
                    CheckConverge [SInt 0] False]\<rparr>)"
  using plaintext_error_only_at_guest[of example_open_env "[0]" "[(0, 1), (1, 0)]" "[example_batch]"
      "example_party GUEST ''respectively''"]
  by (simp add: fit_loop.simps eval_simps)

text \<open>
  C1 fails on the code. The suffix tuples carry the batch index, the tensor names of the
  review step only the iteration: in one iteration of two batches the Guest uses \<open>wb_0\<close>
  and \<open>wa_0\<close> twice.
\<close>

theorem review_tensor_name_reused:
  "fst (fit_binary example_open_env [0] [(0, 1), (1, 0)] [example_batch, example_batch]
          (example_party GUEST ''respectively'')) = Inr ()
   \<and> suffixes (trace (snd (fit_binary example_open_env [0] [(0, 1), (1, 0)]
          [example_batch, example_batch] (example_party GUEST ''respectively''))))
       = [[SInt 0, SInt 0], [SInt 0, SInt 1]]
   \<and> tensor_names (trace (snd (fit_binary example_open_env [0] [(0, 1), (1, 0)]
          [example_batch, example_batch] (example_party GUEST ''respectively''))))
       = [''wb_0'', ''wa_0'', ''wb_0'', ''wa_0'']
   \<and> \<not> distinct (tensor_names (trace (snd (fit_binary example_open_env [0] [(0, 1), (1, 0)]
          [example_batch, example_batch] (example_party GUEST ''respectively'')))))"
  by (simp add: fit_loop.simps eval_simps tensor_names_def suffixes_def)

text \<open>
  C6, as the code has it. For a review strategy other than \<open>respectively\<close> and
  \<open>all_review_in_guest\<close> the review step raises \<open>NotImplementedError\<close> and discloses
  nothing. \<open>_init_model\<close> adds no check of the strategy to what its superclass does. So
  the first pass through the loop body runs the prediction and the gradient step (at the
  Guest also the plaintext error) and fails in the review step.
\<close>

theorem unsupported_strategy_fails_in_review:
  assumes "review_strategy s \<noteq> ''respectively''"
    and "review_strategy s \<noteq> ''all_review_in_guest''"
    and "cal_prediction ev (role s) w_self w_remote batch_data [SInt (n_iter s), SInt (int batch_idx)] = Inr y"
    and "role s = GUEST \<longrightarrow> labels s = Some lb"
    and "err = (if role s = GUEST then from_value ev (join (table_val y) lb (\<lambda>a b. a - b)) else y)"
    and "compute_gradient ev (role s) (if role s = GUEST then w_remote else w_self)
           (if role s = GUEST then w_self else w_remote) err batch_data
           [SInt (n_iter s), SInt (int batch_idx)] = Inr p"
  shows "review_models ev w_self w_remote s = (Inl NotImplementedError, s)
       \<and> init_model ev params s0 =
           (case super_init_model ev params s0 of
              (Inl e, s1) \<Rightarrow> (Inl e, s1)
            | (Inr u, s1) \<Rightarrow> (Inr (), s1\<lparr>cipher := Some (key_length s1)\<rparr>))
       \<and> batch_step ev batch_idx batch_data w_self w_remote s =
           (Inl NotImplementedError,
            s\<lparr>trace := trace s @
                  CalPrediction [SInt (n_iter s), SInt (int batch_idx)] #
                  (if role s = GUEST then [PlainError (join (table_val y) lb (\<lambda>a b. a - b))] else []) @
                  [ComputeGradient [SInt (n_iter s), SInt (int batch_idx)] err]\<rparr>)"
proof -
  have a: "review_models ev w_self w_remote s = (Inl NotImplementedError, s)"
    using assms(1,2) by (simp add: review_models_def)
  have b: "init_model ev params s0 =
           (case super_init_model ev params s0 of
              (Inl e, s1) \<Rightarrow> (Inl e, s1)
            | (Inr u, s1) \<Rightarrow> (Inr (), s1\<lparr>cipher := Some (key_length s1)\<rparr>))"
    by (simp add: init_model_def bind_def)
  obtain p1 p2 where p: "p = (p1, p2)" by (cases p)
  have c: "batch_step ev batch_idx batch_data w_self w_remote s =
           (Inl NotImplementedError,
            s\<lparr>trace := trace s @
                  CalPrediction [SInt (n_iter s), SInt (int batch_idx)] #
                  (if role s = GUEST then [PlainError (join (table_val y) lb (\<lambda>a b. a - b))] else []) @
                  [ComputeGradient [SInt (n_iter s), SInt (int batch_idx)] err]\<rparr>)"
  proof (cases "role s = GUEST")
    case True
    then show ?thesis using assms p
      by (simp add: batch_step_def bind_def cal_prediction_call_def compute_gradient_call_def
          review_models_def Let_def)
  next
    case False
    then show ?thesis using assms p
      by (simp add: batch_step_def bind_def cal_prediction_call_def compute_gradient_call_def
          review_models_def Let_def)
  qed
  show ?thesis using a b c by simp
qed

theorem unsupported_strategy_fails_in_review_witness:
  "review_models example_open_env \<lparr>share_val = [2], q_field = 7\<rparr> \<lparr>share_val = [4], q_field = 7\<rparr>
      (example_party HOST ''nonsense'') = (Inl NotImplementedError, example_party HOST ''nonsense'')
   \<and> batch_step example_open_env 0 example_batch \<lparr>share_val = [2], q_field = 7\<rparr>
        \<lparr>share_val = [4], q_field = 7\<rparr> (example_party HOST ''nonsense'')
      = (Inl NotImplementedError,
         (example_party HOST ''nonsense'')
           \<lparr>trace := [CalPrediction [SInt 0, SInt 0],
                       ComputeGradient [SInt 0, SInt 0] example_batch]\<rparr>)"
  using unsupported_strategy_fails_in_review[of "example_party HOST ''nonsense''" example_open_env
      "\<lparr>share_val = [2], q_field = 7\<rparr>" "\<lparr>share_val = [4], q_field = 7\<rparr>" example_batch 0
      example_batch "[]" example_batch "(\<lparr>share_val = [2], q_field = 7\<rparr>, \<lparr>share_val = [4], q_field = 7\<rparr>)"]
  by (simp add: example_party_def example_open_env_def example_env_def example_batch_def)

text \<open>
  C6 as stated fails: with a superclass initialisation that stores the
  parameters, \<open>_init_model\<close> accepts the strategy \<open>nonsense\<close>, and \<open>fit_binary\<close> fails only
  after the prediction and the gradient step of the first batch.
\<close>

theorem unsupported_strategy_counterexample:
  "init_model example_open_env (example_param ''nonsense'') (example_party HOST ''respectively'')
     = (Inr (), (example_party HOST ''nonsense'')\<lparr>cipher := Some 1024\<rparr>)
   \<and> fit_binary example_open_env [0] [(0, 1), (1, 0)] [example_batch]
        ((example_party HOST ''nonsense'')\<lparr>cipher := Some 1024\<rparr>)
     = (Inl NotImplementedError,
        (example_party HOST ''nonsense'')
          \<lparr>cipher := Some 1024,
           trace := [FromSource ''wa_-1'', FromSource ''wb_-1'',
                     CalPrediction [SInt 0, SInt 0],
                     ComputeGradient [SInt 0, SInt 0] example_batch]\<rparr>)"
  by (simp add: init_model_def example_param_def fit_loop.simps eval_simps)

subsection \<open>The share exchange\<close>



section \<open>Properties of the local model cache\<close>

subsection \<open>Unpacking an archive\<close>

text \<open>
  C10. \<open>unpack_model\<close> fails without touching the file system in two cases. If the local
  model cache exists, it raises \<open>FileExistsError\<close>. If the cache does not exist, the sidecar
  \<open>archive_file_path + '.sha1'\<close> is a file whose bytes are well-formed UTF-8, the archive is
  a file, and the digest of the archive differs from the text of the sidecar (decoded,
  with its line ends translated and its white space stripped), it raises \<open>ValueError\<close>. In
  both cases the file system after the call is the one before it: the cache directory has
  not been made and nothing has been extracted.
\<close>

theorem unpack_model_atomic_on_error:
  "(exists_cache self f \<longrightarrow> unpack_model ev self archive_file_path f = (Inl FileExistsError, f))
   \<and> (\<not> exists_cache self f
        \<and> stat f (archive_file_path @ ''.sha1'') = Inr (File stored)
        \<and> utf8_decode (map of_char stored) = Some cps
        \<and> stat f archive_file_path = Inr (File content)
        \<and> ascii_str (sha1_hexdigest ev content) \<noteq> strip (universal_newlines cps)
      \<longrightarrow> unpack_model ev self archive_file_path f = (Inl ValueError, f))"
  by (auto simp: unpack_model_def bind_def os_path_isfile_def read_file_def read_text_def Let_def)

lemmas fs_eval_simps = stat_def resolve_def components_def start_dir_def node_at_def
  trailing_slash_def os_path_exists_def os_path_isfile_def read_file_def read_text_def
  write_file_def os_makedirs_def exists_cache_def Let_def bind_def

lemma example_sha1:
  "sha1_hexdigest example_pm_env content = (if content = ''archive'' then ''0f'' else ''a1'')"
  by (simp add: example_pm_env_def)

lemma example_base: "project_base_directory example_pm_env = ''/fate''"
  by (simp add: example_pm_env_def)

lemma example_model_path:
  "model_path (PipelinedModel example_pm_env ''guest-9999'' ''v1'') = ''/fate/model_local_cache/guest-9999/v1''"
  by (simp add: PipelinedModel_def example_base os_path_join_def path_join2_def Let_def)

lemma example_sidecar: "stat example_fs ''/tmp/m.zip.sha1'' = Inr (File ''a1'')"
  by (simp add: fs_eval_simps example_fs_def)

lemma example_archive: "stat example_fs ''/tmp/m.zip'' = Inr (File ''archive'')"
  by (simp add: fs_eval_simps example_fs_def)

lemma example_no_cache:
  "\<not> exists_cache (PipelinedModel example_pm_env ''guest-9999'' ''v1'') example_fs"
  by (simp add: example_model_path fs_eval_simps example_fs_def)

lemma example_has_cache:
  "exists_cache (PipelinedModel example_pm_env ''guest-9999'' ''v1'') example_cache"
  by (simp add: example_model_path fs_eval_simps example_cache_def example_cache_nodes_def)

theorem unpack_model_atomic_on_error_witness:
  "unpack_model example_pm_env (PipelinedModel example_pm_env ''guest-9999'' ''v1'') ''/tmp/m.zip''
      example_cache = (Inl FileExistsError, example_cache)
   \<and> unpack_model example_pm_env (PipelinedModel example_pm_env ''guest-9999'' ''v1'') ''/tmp/m.zip''
      example_fs = (Inl ValueError, example_fs)"
proof -
  have 1: "unpack_model example_pm_env (PipelinedModel example_pm_env ''guest-9999'' ''v1'') ''/tmp/m.zip''
      example_cache = (Inl FileExistsError, example_cache)"
    using unpack_model_atomic_on_error[of "PipelinedModel example_pm_env ''guest-9999'' ''v1''"
      example_cache example_pm_env "''/tmp/m.zip''"] example_has_cache by blast
  have d: "utf8_decode (map of_char ''a1'') = Some [97, 49]" by simp
  have n: "ascii_str (sha1_hexdigest example_pm_env ''archive'') \<noteq> strip (universal_newlines [97, 49])"
    by (simp add: example_sha1 ascii_str_def strip_def isspace_def)
  have 2: "unpack_model example_pm_env (PipelinedModel example_pm_env ''guest-9999'' ''v1'') ''/tmp/m.zip''
      example_fs = (Inl ValueError, example_fs)"
    using unpack_model_atomic_on_error[of "PipelinedModel example_pm_env ''guest-9999'' ''v1''"
      example_fs example_pm_env "''/tmp/m.zip''" "''a1''" "[97, 49]" "''archive''"]
      example_no_cache example_sidecar example_archive d n by simp
  show ?thesis using 1 2 by simp
qed

text \<open>
  A sidecar that is not UTF-8 stops the call at the read, with \<open>UnicodeDecodeError\<close> (in
  Python a subclass of \<open>ValueError\<close>), and the file system is again untouched.
\<close>

lemma unpack_model_undecodable_sidecar:
  "\<not> exists_cache self f \<Longrightarrow> stat f (archive_file_path @ ''.sha1'') = Inr (File stored) \<Longrightarrow>
   utf8_decode (map of_char stored) = None \<Longrightarrow>
   unpack_model ev self archive_file_path f = (Inl UnicodeDecodeError, f)"
  by (simp add: unpack_model_def bind_def os_path_isfile_def read_file_def read_text_def)

lemmas pm_eval_simps = save_component_model_def update_component_meta_def
  local_cache_required_def get_model_proto_index_def
  read_component_model_def parse_proto_object_def get_proto_buffer_class_def find_class_def
  rstrip_def serialized_for_storage_def get_or_empty_def dict_update_def
  os_path_join_def path_join2_def PipelinedModel_def
  example_cache_def example_cache_nodes_def example_index_def example_pm_env_def
  example_serialize_def example_parse_def example_strict_parse_def

text \<open>
  The comparison is between texts, after \<open>strip\<close>: a sidecar that holds the digest followed by
  \<open>U+0085\<close> (the bytes \<open>C2 85\<close>) and a line feed matches, and the archive is unpacked.
\<close>

lemma unpack_model_strips_unicode_space:
  "unpack_model (example_pm_env\<lparr>sha1_hexdigest := (\<lambda>content. ''a1'')\<rparr>)
      (PipelinedModel example_pm_env ''guest-9999'' ''v1'') ''/tmp/m.zip''
      (example_fs\<lparr>nodes := (nodes example_fs)
         ([''tmp'', ''m.zip.sha1''] \<mapsto> File [CHR ''a'', CHR ''1'', CHR 0xC2, CHR 0x85, CHR 0x0A])\<rparr>)
     = (Inr (),
        example_fs\<lparr>nodes := (nodes example_fs)
          ([''tmp'', ''m.zip.sha1''] \<mapsto> File [CHR ''a'', CHR ''1'', CHR 0xC2, CHR 0x85, CHR 0x0A],
           [''fate'', ''model_local_cache'', ''guest-9999''] \<mapsto> Dir,
           [''fate'', ''model_local_cache'', ''guest-9999'', ''v1''] \<mapsto> Dir,
           [''fate'', ''model_local_cache'', ''guest-9999'', ''v1'', ''pipeline.pb''] \<mapsto> File [])\<rparr>)"
  by (simp add: unpack_model_def fs_eval_simps pm_eval_simps example_fs_def
      ascii_str_def strip_def isspace_def continuation_def)

subsection \<open>Saving and reading component models\<close>

text \<open>
  What is stored for a buffer whose serialization is empty, and the two ways through
  \<open>parse_proto_object\<close>: the class's own parse decides whenever it accepts the bytes, and the
  default instance is returned only when it rejects them.
\<close>

lemma serialized_for_storage_empty:
  "SerializeToString ev buffer_object = [] \<Longrightarrow>
   serialized_for_storage ev buffer_object = fill_message_set ev"
  by (simp add: serialized_for_storage_def)

lemma parse_proto_object_own_parse:
  "get_proto_buffer_class ev buffer_name = Some cls \<Longrightarrow> ParseFromString cls b = Some x \<Longrightarrow>
   parse_proto_object ev buffer_name b = Inr x"
  by (simp add: parse_proto_object_def)

lemma parse_proto_object_default_values:
  "get_proto_buffer_class ev buffer_name = Some cls \<Longrightarrow> ParseFromString cls b = None \<Longrightarrow>
   fill_message_parses ev b \<Longrightarrow> ParseFromString cls [] = Some x \<Longrightarrow>
   parse_proto_object ev buffer_name b = Inr x"
  by (simp add: parse_proto_object_def)

text \<open>
  C9. A buffer of the class \<open>Meta\<close> with every field at its default serializes to the empty
  byte string, so \<open>save_component_model\<close> stores the fill message \<open>0A 03 73 65 74\<close> in its
  place. \<open>read_component_model\<close> then hands these bytes to \<open>parse_proto_object\<close>, which finds
  the class \<open>Meta\<close> and tries its own \<open>ParseFromString\<close> first; that accepts the bytes as
  field 1, so the object read back has \<open>'set'\<close> in field 1 and is not the default instance
  that was saved. The branch that parses "with default values" is not reached. It is
  reached for the class \<open>Strict\<close>, whose own parse rejects the fill message: there the
  default instance comes back.
\<close>

theorem fill_message_read_as_content:
  "SerializeToString example_pm_env (Message ''Meta'' []) = []
   \<and> get_proto_buffer_class example_pm_env (type_name example_pm_env (Message ''Meta'' []))
       = Some \<lparr>ParseFromString = example_parse ''Meta''\<rparr>
   \<and> example_parse ''Meta'' [] = Some (Message ''Meta'' [])
   \<and> fst (save_component_model example_pm_env (PipelinedModel example_pm_env ''guest-9999'' ''v1'')
           ''lr_0'' ''HeteroLR'' ''train'' [(''HeteroLRMeta'', Message ''Meta'' [])] False example_cache)
       = Inr None
   \<and> fst (read_file ''/fate/model_local_cache/guest-9999/v1/variables/data/lr_0/train/HeteroLRMeta''
        (snd (save_component_model example_pm_env (PipelinedModel example_pm_env ''guest-9999'' ''v1'')
           ''lr_0'' ''HeteroLR'' ''train'' [(''HeteroLRMeta'', Message ''Meta'' [])] False example_cache)))
       = Inr [CHR 0x0A, CHR 0x03, CHR ''s'', CHR ''e'', CHR ''t'']
   \<and> fst (read_component_model example_pm_env (PipelinedModel example_pm_env ''guest-9999'' ''v1'')
        ''lr_0'' ''train'' True
        (snd (save_component_model example_pm_env (PipelinedModel example_pm_env ''guest-9999'' ''v1'')
           ''lr_0'' ''HeteroLR'' ''train'' [(''HeteroLRMeta'', Message ''Meta'' [])] False example_cache)))
       = Inr [(''HeteroLRMeta'', Parsed (Message ''Meta'' ''set''))]
   \<and> Message ''Meta'' ''set'' \<noteq> Message ''Meta'' []
   \<and> fst (read_component_model example_pm_env (PipelinedModel example_pm_env ''guest-9999'' ''v1'')
        ''lr_0'' ''train'' True
        (snd (save_component_model example_pm_env (PipelinedModel example_pm_env ''guest-9999'' ''v1'')
           ''lr_0'' ''HeteroLR'' ''train'' [(''HeteroLRMeta'', Message ''Strict'' [])] False example_cache)))
       = Inr [(''HeteroLRMeta'', Parsed (Message ''Strict'' []))]"
  by (simp add: fs_eval_simps pm_eval_simps)

end
